theory Spec2Isabelle
  imports Complex_Main
begin

section \<open>Data model\<close>

text \<open>
  The publishing service of the LLM marketplace, embedded shallowly. The type
  declarations of the repository (\<^verbatim>\<open>../types\<close>, \<^verbatim>\<open>../models/service.model\<close>) are not
  part of the sources at hand; the records below carry the fields that the source
  functions read and write. JavaScript numbers are exact rationals here
  (\<open>availability\<close>, averages) or integers (milliseconds, latencies), a \<^verbatim>\<open>Date\<close> is a
  number of milliseconds, and a thrown \<^verbatim>\<open>Error(message)\<close> is the left injection of a sum
  carrying the message.
\<close>

datatype ServiceStatus =
  PENDING_APPROVAL | ACTIVE | DEPRECATED | SUSPENDED | RETIRED | FAILED_VALIDATION

record Endpoint =
  url :: string
  authentication :: string

record Pricing =
  model :: string

record SLA =
  availability :: rat
  maxLatency :: int
  supportLevel :: string

record Compliance =
  level :: string
  dataResidency :: "string list"
  certifications :: "string list option"

record Metadata =
  createdAt :: nat
  updatedAt :: nat
  publishedAt :: "nat option"
  deprecatedAt :: "nat option"
  suspensionReason :: "string option"
  tags :: "string list option"
  documentation :: "string option"
  exampleUsage :: "string option"

text \<open>\<^verbatim>\<open>Service\<close> as its type declares it: every field but the OpenAPI document is required.\<close>

record Service =
  id :: string
  registryId :: string
  name :: string
  version :: string
  description :: string
  providerId :: string
  category :: string
  capabilities :: "string list"
  endpoint :: Endpoint
  pricing :: Pricing
  sla :: SLA
  compliance :: Compliance
  status :: ServiceStatus
  metadata :: Metadata
  openApiSpec :: "string option"

subsection \<open>Printing numbers in messages\<close>

definition digit :: "nat \<Rightarrow> char" where
  "digit n = ''0123456789'' ! n"

fun show_nat :: "nat \<Rightarrow> string" where
  "show_nat n = (if n < 10 then [digit n] else show_nat (n div 10) @ [digit (n mod 10)])"


section \<open>Test orchestrator\<close>

datatype TestStatus = TestPassed | TestFailed | TestSkipped

datatype Severity = Low | Medium | High | Critical

record TestCase =
  name :: string
  status :: TestStatus
  duration :: nat
  error :: "string option"

record TestResult =
  passed :: bool
  total :: nat
  failed :: nat
  skipped :: nat
  duration :: nat
  tests :: "TestCase list"

record Vulnerability =
  id :: string
  severity :: Severity
  title :: string
  description :: string
  remediation :: string

record SecurityScanResult =
  passed :: bool
  vulnerabilities :: "Vulnerability list"
  scanTime :: nat
  scanner :: string

record Metric =
  name :: string
  metricValue :: rat
  unit :: string
  threshold :: rat
  passed :: bool

record PerformanceBenchmark =
  passed :: bool
  metrics :: "Metric list"
  benchmarkedAt :: nat

record TestSuiteResult =
  testResult :: TestResult
  securityResult :: SecurityScanResult
  benchmarkResult :: PerformanceBenchmark
  overallPassed :: bool


definition startsWith :: "string \<Rightarrow> string \<Rightarrow> bool" where
  "startsWith s p = (take (length p) s = p)"












text \<open>
  \<^verbatim>\<open>Promise.all\<close> over three settled computations: the three values, or the rejection of
  the first that failed. The three checks share no state, so their interleaving is not
  observable in the result.
\<close>

definition promiseAll3 :: "(string + 'a) \<Rightarrow> (string + 'b) \<Rightarrow> (string + 'c) \<Rightarrow> string + ('a \<times> 'b \<times> 'c)" where
  "promiseAll3 a b c =
     (case a of Inl e \<Rightarrow> Inl e
      | Inr x \<Rightarrow> (case b of Inl e \<Rightarrow> Inl e
                 | Inr y \<Rightarrow> (case c of Inl e \<Rightarrow> Inl e | Inr z \<Rightarrow> Inr (x, y, z))))"


section \<open>Publishing workflow\<close>

record ValidationIssue =
  field :: string
  message :: string

record ValidationResult =
  isValid :: bool
  errors :: "ValidationIssue list"
  warnings :: "ValidationIssue list"

record PolicyViolation =
  policy :: string
  severity :: Severity
  message :: string
  remediation :: string

record PolicyValidationResult =
  compliant :: bool
  violations :: "PolicyViolation list"
  policyVersion :: string
  validatedAt :: nat

text \<open>
  A submitted specification is a \<^verbatim>\<open>Partial<Service>\<close>: every field may be absent.
\<close>

record ServiceSpec =
  name :: "string option"
  version :: "string option"
  description :: "string option"
  category :: "string option"
  capabilities :: "string list option"
  endpoint :: "Endpoint option"
  pricing :: "Pricing option"
  sla :: "SLA option"
  compliance :: "Compliance option"
  metadata :: "Metadata option"
  openApiSpec :: "string option"

text \<open>
  The object that the pipelines build from a specification with non-null assertions
  (\<^verbatim>\<open>name: serviceSpec.name!\<close>). The assertion is erased at run time, so a copied field
  is absent exactly when the specification's is.
\<close>

record ServiceObject =
  id :: string
  registryId :: string
  name :: "string option"
  version :: "string option"
  description :: "string option"
  providerId :: string
  category :: "string option"
  capabilities :: "string list option"
  endpoint :: "Endpoint option"
  pricing :: "Pricing option"
  sla :: "SLA option"
  compliance :: "Compliance option"
  status :: ServiceStatus
  metadata :: Metadata
  openApiSpec :: "string option"

record PublishingWorkflowContext =
  serviceId :: string
  providerId :: string
  serviceSpec :: ServiceSpec
  validationResult :: "ValidationResult option"
  policyResult :: "PolicyValidationResult option"
  approvalRequired :: bool
  approvalStatus :: "string option"
  registryId :: "string option"
  testResult :: "TestResult option"
  securityResult :: "SecurityScanResult option"
  benchmarkResult :: "PerformanceBenchmark option"
  startTime :: nat
  endTime :: "nat option"

record LifecycleEvent =
  event :: string
  serviceId :: string
  providerId :: string
  timestamp :: nat

text \<open>
  The activities of the workflow are the methods of the object held in
  \<^verbatim>\<open>this.activities\<close>. The workflow is embedded over any such object: a retried activity
  maps the number of the attempt to what that call does (a thrown message or a value),
  an activity called once maps its arguments to its outcome.
\<close>

record Activities =
  validateServiceSpec :: "ServiceSpec \<Rightarrow> nat \<Rightarrow> string + ValidationResult"
  validateOpenAPISpec :: "string \<Rightarrow> nat \<Rightarrow> string + ValidationResult"
  checkPolicyCompliance :: "ServiceSpec \<Rightarrow> nat \<Rightarrow> string + PolicyValidationResult"
  registerWithRegistry :: "ServiceSpec \<Rightarrow> nat \<Rightarrow> string + string"
  saveServiceToDatabase :: "ServiceObject \<Rightarrow> nat \<Rightarrow> string + unit"
  runAutomatedTests :: "ServiceObject \<Rightarrow> nat \<Rightarrow> string + TestResult"
  runSecurityScanActivity :: "ServiceObject \<Rightarrow> nat \<Rightarrow> string + SecurityScanResult"
  runPerformanceBenchmarksActivity :: "ServiceObject \<Rightarrow> nat \<Rightarrow> string + PerformanceBenchmark"
  updateServiceStatus :: "string \<Rightarrow> ServiceStatus \<Rightarrow> string + unit"
  createApprovalWorkflow :: "PublishingWorkflowContext \<Rightarrow> string + string"
  waitForApproval :: "string \<Rightarrow> nat \<Rightarrow> string + bool"
  publishAnalyticsEvents :: "LifecycleEvent list \<Rightarrow> string + unit"
  notifyGovernanceDashboard :: "ServiceObject \<Rightarrow> string \<Rightarrow> string + unit"
  rollbackPublication :: "string \<Rightarrow> string \<Rightarrow> string + unit"

text \<open>The three readings of \<^verbatim>\<open>new Date()\<close> that one run of the workflow keeps.\<close>

record WorkflowClock =
  startedAt :: nat
  builtAt :: nat
  finishedAt :: nat

text \<open>
  \<^verbatim>\<open>PublishingWorkflowActivities\<close> as the source has it: stand-ins that succeed.
\<close>

definition PublishingWorkflowActivities :: "nat \<Rightarrow> Activities" where
  "PublishingWorkflowActivities now =
     \<lparr> validateServiceSpec = (\<lambda>spec k. Inr \<lparr> isValid = True, errors = [], warnings = [] \<rparr>),
       validateOpenAPISpec = (\<lambda>doc k. Inr \<lparr> isValid = True, errors = [], warnings = [] \<rparr>),
       checkPolicyCompliance =
         (\<lambda>spec k. Inr \<lparr> compliant = True, violations = [], policyVersion = ''1.0.0'',
                          validatedAt = now \<rparr>),
       registerWithRegistry = (\<lambda>spec k. Inr ''registry-id-12345''),
       saveServiceToDatabase = (\<lambda>service k. Inr ()),
       runAutomatedTests =
         (\<lambda>service k. Inr \<lparr> TestResult.passed = True, total = 10, failed = 0, skipped = 0,
                             duration = 5000,
                             tests =
                               [\<lparr> TestCase.name = ''Health Check'', status = TestPassed,
                                  duration = 100, error = None \<rparr>,
                                \<lparr> TestCase.name = ''Authentication'', status = TestPassed,
                                  duration = 200, error = None \<rparr>,
                                \<lparr> TestCase.name = ''API Endpoint'', status = TestPassed,
                                  duration = 300, error = None \<rparr>] \<rparr>),
       runSecurityScanActivity =
         (\<lambda>service k. Inr \<lparr> SecurityScanResult.passed = True, vulnerabilities = [],
                             scanTime = now, scanner = ''Snyk'' \<rparr>),
       runPerformanceBenchmarksActivity =
         (\<lambda>service k. Inr \<lparr> PerformanceBenchmark.passed = True,
                             metrics =
                               [\<lparr> Metric.name = ''Response Time'', metricValue = 150,
                                  unit = ''ms'', threshold = 200, passed = True \<rparr>,
                                \<lparr> Metric.name = ''Throughput'', metricValue = 1000,
                                  unit = ''req/s'', threshold = 500, passed = True \<rparr>],
                             benchmarkedAt = now \<rparr>),
       updateServiceStatus = (\<lambda>sid st. Inr ()),
       createApprovalWorkflow = (\<lambda>context. Inr ''approval-workflow-id''),
       waitForApproval = (\<lambda>workflowId timeoutSeconds. Inr True),
       publishAnalyticsEvents = (\<lambda>events. Inr ()),
       notifyGovernanceDashboard = (\<lambda>service ev. Inr ()),
       rollbackPublication = (\<lambda>sid rid. Inr ()) \<rparr>"

subsection \<open>Runs and their traces\<close>

text \<open>
  A run of (a part of) the workflow yields the sequence of activity calls and back-off
  pauses it made, and either the message of the error it threw or its value.
\<close>

datatype Activity =
    ValidateServiceSpec | ValidateOpenAPISpec | CheckPolicyCompliance | RegisterWithRegistry
  | SaveServiceToDatabase | RunAutomatedTests | RunSecurityScan | RunPerformanceBenchmarks
  | UpdateServiceStatus string ServiceStatus
  | CreateApprovalWorkflow string
  | WaitForApproval string nat
  | PublishAnalyticsEvents
  | NotifyGovernanceDashboard string string
  | RollbackPublication string string

datatype WorkflowEvent = Invoke Activity | Sleep nat

type_synonym 'a Run = "WorkflowEvent list \<times> (string + 'a)"

definition andThen :: "'a Run \<Rightarrow> ('a \<Rightarrow> 'b Run) \<Rightarrow> 'b Run" where
  "andThen m f =
     (case snd m of
        Inl e \<Rightarrow> (fst m, Inl e)
      | Inr v \<Rightarrow> (fst m @ fst (f v), snd (f v)))"

definition once :: "Activity \<Rightarrow> (string + 'a) \<Rightarrow> 'a Run" where
  "once a outcome = ([Invoke a], outcome)"

definition finish :: "'a \<Rightarrow> 'a Run" where
  "finish v = ([], Inr v)"

text \<open>
  \<^verbatim>\<open>retryActivity\<close>: the loop \<^verbatim>\<open>for (attempt = 1; attempt <= maxRetries; attempt++)\<close>. A
  failed attempt that is not the last is followed by a pause of
  \<^verbatim>\<open>Math.pow(2, attempt - 1) * 1000\<close> milliseconds; when the loop ends the function throws
  a new error that quotes the message of the last one.
\<close>

function retryLoop ::
  "Activity \<Rightarrow> (nat \<Rightarrow> string + 'a) \<Rightarrow> nat \<Rightarrow> nat \<Rightarrow> string option \<Rightarrow> 'a Run" where
  "retryLoop a activity maxRetries attempt lastError =
     (if attempt \<le> maxRetries then
        (case activity attempt of
           Inr v \<Rightarrow> ([Invoke a], Inr v)
         | Inl e \<Rightarrow>
             (Invoke a
                # (if attempt < maxRetries then [Sleep (2 ^ (attempt - 1) * 1000)] else [])
                @ fst (retryLoop a activity maxRetries (attempt + 1) (Some e)),
              snd (retryLoop a activity maxRetries (attempt + 1) (Some e))))
      else ([], Inl (''Activity failed after '' @ show_nat maxRetries @ '' retries: ''
                      @ (case lastError of None \<Rightarrow> ''undefined'' | Some e \<Rightarrow> e))))"
  by pat_completeness auto
termination
  by (relation "measure (\<lambda>(a, activity, maxRetries, attempt, lastError). Suc maxRetries - attempt)")
     auto

declare retryLoop.simps [simp del]

definition retryActivity :: "Activity \<Rightarrow> (nat \<Rightarrow> string + 'a) \<Rightarrow> nat \<Rightarrow> 'a Run" where
  "retryActivity a activity maxRetries = retryLoop a activity maxRetries 1 None"

text \<open>
  \<^verbatim>\<open>Promise.all\<close> over runs that were all started: every call of every run is made, the
  value is the tuple of the values or the rejection of the first run (in array order)
  that failed. The trace lists the runs one after the other; their actual interleaving
  is left open by the source.
\<close>

definition parallel3 :: "'a Run \<Rightarrow> 'b Run \<Rightarrow> 'c Run \<Rightarrow> ('a \<times> 'b \<times> 'c) Run" where
  "parallel3 ra rb rc = (fst ra @ fst rb @ fst rc, promiseAll3 (snd ra) (snd rb) (snd rc))"

definition parallel2 :: "'a Run \<Rightarrow> 'b Run \<Rightarrow> ('a \<times> 'b) Run" where
  "parallel2 ra rb =
     (fst ra @ fst rb,
      case snd ra of Inl e \<Rightarrow> Inl e
      | Inr x \<Rightarrow> (case snd rb of Inl e \<Rightarrow> Inl e | Inr y \<Rightarrow> Inr (x, y)))"

subsection \<open>The workflow\<close>

definition requiresApproval :: "ServiceSpec \<Rightarrow> bool" where
  "requiresApproval spec =
     (map_option level (ServiceSpec.compliance spec) = Some ''confidential''
      \<or> map_option level (ServiceSpec.compliance spec) = Some ''restricted''
      \<or> map_option supportLevel (ServiceSpec.sla spec) = Some ''enterprise'')"

definition buildService :: "WorkflowClock \<Rightarrow> string \<Rightarrow> string \<Rightarrow> string \<Rightarrow> ServiceSpec \<Rightarrow> ServiceObject" where
  "buildService clk sid pid rid spec =
     \<lparr> ServiceObject.id = sid, registryId = rid, name = ServiceSpec.name spec,
       version = ServiceSpec.version spec, description = ServiceSpec.description spec,
       providerId = pid, category = ServiceSpec.category spec,
       capabilities = ServiceSpec.capabilities spec, endpoint = ServiceSpec.endpoint spec,
       pricing = ServiceSpec.pricing spec, sla = ServiceSpec.sla spec,
       compliance = ServiceSpec.compliance spec, status = PENDING_APPROVAL,
       metadata = \<lparr> createdAt = builtAt clk, updatedAt = builtAt clk, publishedAt = None,
                    deprecatedAt = None, suspensionReason = None, tags = None,
                    documentation = None, exampleUsage = None \<rparr>,
       openApiSpec = None \<rparr>"

text \<open>Steps 9 and 10: activate, then publish the events.\<close>

definition activate ::
  "Activities \<Rightarrow> WorkflowClock \<Rightarrow> PublishingWorkflowContext \<Rightarrow> ServiceObject
     \<Rightarrow> PublishingWorkflowContext Run" where
  "activate acts clk context service =
     andThen (once (UpdateServiceStatus (PublishingWorkflowContext.serviceId context) ACTIVE)
                (updateServiceStatus acts (PublishingWorkflowContext.serviceId context) ACTIVE))
       (\<lambda>_. andThen
          (parallel2
             (once PublishAnalyticsEvents
                (publishAnalyticsEvents acts
                   [\<lparr> event = ''service_published'',
                      serviceId = PublishingWorkflowContext.serviceId context,
                      providerId = PublishingWorkflowContext.providerId context,
                      timestamp = finishedAt clk \<rparr>]))
             (once (NotifyGovernanceDashboard (ServiceObject.id service) ''service_published'')
                (notifyGovernanceDashboard acts service ''service_published'')))
          (\<lambda>_. finish (context\<lparr> endTime := Some (finishedAt clk) \<rparr>)))"

text \<open>Step 8: the approval gate, entered when the test results all passed.\<close>

definition approvalGate ::
  "Activities \<Rightarrow> WorkflowClock \<Rightarrow> PublishingWorkflowContext \<Rightarrow> ServiceObject
     \<Rightarrow> PublishingWorkflowContext Run" where
  "approvalGate acts clk context service =
     (if approvalRequired context then
        andThen (once (CreateApprovalWorkflow (PublishingWorkflowContext.serviceId context))
                   (createApprovalWorkflow acts context))
          (\<lambda>approvalWorkflowId.
             andThen (once (WaitForApproval approvalWorkflowId (7 * 24 * 60 * 60))
                        (waitForApproval acts approvalWorkflowId (7 * 24 * 60 * 60)))
               (\<lambda>approved.
                  if \<not> approved then
                    andThen
                      (once (UpdateServiceStatus (PublishingWorkflowContext.serviceId context)
                               SUSPENDED)
                         (updateServiceStatus acts
                            (PublishingWorkflowContext.serviceId context) SUSPENDED))
                      (\<lambda>_. finish (context\<lparr> approvalStatus := Some ''rejected'',
                                              endTime := Some (finishedAt clk) \<rparr>))
                  else activate acts clk (context\<lparr> approvalStatus := Some ''approved'' \<rparr>)
                         service))
      else activate acts clk context service)"

text \<open>Steps 6 to 10: everything inside the \<^verbatim>\<open>try\<close> block after the registry identifier
  has been stored in the context.\<close>

definition afterRegistration ::
  "Activities \<Rightarrow> WorkflowClock \<Rightarrow> PublishingWorkflowContext \<Rightarrow> ServiceObject
     \<Rightarrow> PublishingWorkflowContext Run" where
  "afterRegistration acts clk context service =
     andThen (retryActivity SaveServiceToDatabase (saveServiceToDatabase acts service) 5)
       (\<lambda>_. andThen
          (parallel3
             (retryActivity RunAutomatedTests (runAutomatedTests acts service) 3)
             (retryActivity RunSecurityScan (runSecurityScanActivity acts service) 3)
             (retryActivity RunPerformanceBenchmarks
                (runPerformanceBenchmarksActivity acts service) 3))
          (\<lambda>(t, s, b).
             if \<not> TestResult.passed t \<or> \<not> SecurityScanResult.passed s
                \<or> \<not> PerformanceBenchmark.passed b
             then
               andThen
                 (once (UpdateServiceStatus (PublishingWorkflowContext.serviceId context)
                          FAILED_VALIDATION)
                    (updateServiceStatus acts
                       (PublishingWorkflowContext.serviceId context) FAILED_VALIDATION))
                 (\<lambda>_. finish (context\<lparr> testResult := Some t, securityResult := Some s,
                                         benchmarkResult := Some b,
                                         endTime := Some (finishedAt clk) \<rparr>))
             else
               approvalGate acts clk
                 (context\<lparr> testResult := Some t, securityResult := Some s,
                            benchmarkResult := Some b,
                            approvalRequired :=
                              requiresApproval (serviceSpec context) \<rparr>)
                 service))"

text \<open>
  The handler of the \<^verbatim>\<open>catch\<close> block, for an error thrown while the context holds the
  registry identifier \<open>rid\<close>: when the identifier is truthy (a non-empty string) the
  publication is rolled back, then the error is thrown again; an error of the rollback
  itself replaces it.
\<close>

definition rollbackOnFailure ::
  "Activities \<Rightarrow> string \<Rightarrow> string option \<Rightarrow> 'a Run \<Rightarrow> 'a Run" where
  "rollbackOnFailure acts sid rid r =
     (case snd r of
        Inr v \<Rightarrow> r
      | Inl e \<Rightarrow>
          (case rid of
             None \<Rightarrow> r
           | Some i \<Rightarrow>
               if i = [] then r
               else (fst r @ [Invoke (RollbackPublication sid i)],
                     case rollbackPublication acts sid i of
                       Inl e' \<Rightarrow> Inl e'
                     | Inr _ \<Rightarrow> Inl e)))"

text \<open>
  \<^verbatim>\<open>PublishingWorkflow.execute\<close>. Until registration has returned the context holds no
  registry identifier, so an error thrown up to there passes the handler unchanged.
\<close>

definition execute ::
  "Activities \<Rightarrow> WorkflowClock \<Rightarrow> string \<Rightarrow> string \<Rightarrow> ServiceSpec
     \<Rightarrow> PublishingWorkflowContext Run" where
  "execute acts clk sid pid spec =
     (let context0 =
            \<lparr> PublishingWorkflowContext.serviceId = sid, providerId = pid, serviceSpec = spec,
              validationResult = None, policyResult = None, approvalRequired = False,
              approvalStatus = None, registryId = None, testResult = None,
              securityResult = None, benchmarkResult = None,
              startTime = startedAt clk, endTime = None \<rparr>
      in
      rollbackOnFailure acts sid None
        (andThen (retryActivity ValidateServiceSpec (validateServiceSpec acts spec) 3)
           (\<lambda>vr.
              if \<not> isValid vr
              then finish (context0\<lparr> validationResult := Some vr,
                                      endTime := Some (finishedAt clk) \<rparr>)
              else
                andThen
                  (case ServiceSpec.openApiSpec spec of
                     None \<Rightarrow> finish vr
                   | Some doc \<Rightarrow>
                       retryActivity ValidateOpenAPISpec (validateOpenAPISpec acts doc) 3)
                  (\<lambda>openApiResult.
                     if \<not> isValid openApiResult
                     then finish (context0\<lparr> validationResult := Some openApiResult,
                                             endTime := Some (finishedAt clk) \<rparr>)
                     else
                       andThen
                         (retryActivity CheckPolicyCompliance
                            (checkPolicyCompliance acts spec) 3)
                         (\<lambda>pr.
                            if \<not> compliant pr
                            then finish (context0\<lparr> validationResult := Some vr,
                                                    policyResult := Some pr,
                                                    endTime := Some (finishedAt clk) \<rparr>)
                            else
                              andThen
                                (retryActivity RegisterWithRegistry
                                   (registerWithRegistry acts spec) 5)
                                (\<lambda>rid.
                                   rollbackOnFailure acts sid (Some rid)
                                     (afterRegistration acts clk
                                        (context0\<lparr> validationResult := Some vr,
                                                    policyResult := Some pr,
                                                    registryId := Some rid \<rparr>)
                                        (buildService clk sid pid rid spec))))))))"

section \<open>Policy engine client\<close>

text \<open>
  What a run of the publishing service reads from its process: \<^verbatim>\<open>NODE_ENV\<close>, the reading
  of \<^verbatim>\<open>new Date()\<close> and the database's \<^verbatim>\<open>NOW()\<close>.
\<close>

record RuntimeEnv =
  nodeEnv :: "string option"
  today :: nat
  dbNow :: nat

definition validateDataResidencyPolicy :: "ServiceSpec \<Rightarrow> PolicyViolation list" where
  "validateDataResidencyPolicy service =
     (if (case ServiceSpec.compliance service of None \<Rightarrow> True
          | Some c \<Rightarrow> length (dataResidency c) = 0)
      then [\<lparr> policy = ''data-residency-required'', severity = High,
              message = ''Service must specify at least one data residency location'',
              remediation = ''Add data residency information to compliance section'' \<rparr>]
      else [])
     @ (if (case ServiceSpec.compliance service of None \<Rightarrow> False
            | Some c \<Rightarrow> list_ex (\<lambda>country. country \<in> set [''KP'', ''IR'', ''SY''])
                         (dataResidency c))
        then [\<lparr> policy = ''restricted-countries'', severity = Critical,
                message = ''Service cannot have data residency in restricted countries'',
                remediation = ''Remove restricted countries from data residency list'' \<rparr>]
        else [])"

definition validateCompliancePolicy :: "ServiceSpec \<Rightarrow> PolicyViolation list" where
  "validateCompliancePolicy service =
     (if (case ServiceSpec.compliance service of None \<Rightarrow> False
          | Some c \<Rightarrow> level c = ''confidential''
                      \<and> (case certifications c of None \<Rightarrow> True | Some cs \<Rightarrow> length cs = 0))
      then [\<lparr> policy = ''confidential-certification-required'', severity = High,
              message = ''Confidential services must have security certifications'',
              remediation = ''Add security certifications (e.g., SOC2, ISO27001)'' \<rparr>]
      else [])"

definition validateSecurityPolicy :: "RuntimeEnv \<Rightarrow> ServiceSpec \<Rightarrow> PolicyViolation list" where
  "validateSecurityPolicy env service =
     (if nodeEnv env = Some ''production''
         \<and> (case ServiceSpec.endpoint service of None \<Rightarrow> False
              | Some e \<Rightarrow> url e \<noteq> [] \<and> \<not> startsWith (url e) ''https://'')
      then [\<lparr> policy = ''https-required'', severity = Critical,
              message = ''Production services must use HTTPS endpoints'',
              remediation = ''Update endpoint URL to use HTTPS'' \<rparr>]
      else [])"

definition validatePricingPolicy :: "ServiceSpec \<Rightarrow> PolicyViolation list" where
  "validatePricingPolicy service =
     (if (case ServiceSpec.sla service of None \<Rightarrow> False
          | Some a \<Rightarrow> supportLevel a = ''enterprise'' \<and> availability a < 999 / 10)
      then [\<lparr> policy = ''enterprise-sla-minimum'', severity = Medium,
              message = ''Enterprise support level requires at least 99.9% availability SLA'',
              remediation = ''Increase availability SLA to 99.9% or higher'' \<rparr>]
      else [])"

definition validateService :: "RuntimeEnv \<Rightarrow> ServiceSpec \<Rightarrow> PolicyValidationResult" where
  "validateService env service =
     (let vs = validateDataResidencyPolicy service @ validateCompliancePolicy service
               @ validateSecurityPolicy env service @ validatePricingPolicy service
      in \<lparr> compliant = (length vs = 0), violations = vs, policyVersion = ''1.0.0'',
           validatedAt = today env \<rparr>)"

section \<open>Publishing service\<close>

text \<open>
  The table \<^verbatim>\<open>services\<close> as the publishing service writes and reads it. A column that
  \<^verbatim>\<open>saveService\<close> fills from a field of the specification is null when that field is
  absent. The JSON columns hold the structured value itself.
\<close>

record ServiceRow =
  id :: string
  registry_id :: string
  name :: "string option"
  version :: "string option"
  description :: "string option"
  provider_id :: string
  category :: "string option"
  tags :: "string list"
  capabilities :: "string list option"
  endpoint :: "Endpoint option"
  pricing :: "Pricing option"
  sla :: "SLA option"
  compliance :: "Compliance option"
  status :: ServiceStatus
  created_at :: nat
  updated_at :: nat
  published_at :: "nat option"
  deprecated_at :: "nat option"
  suspension_reason :: "string option"

text \<open>Calls that leave the process: registry, governance and analytics.\<close>

datatype Outbound =
    RegistryRegisterService ServiceSpec
  | GovernanceCreateApprovalWorkflow string
  | GovernanceNotifyServicePublished string
  | AnalyticsTrack string string

record PublishingState =
  services :: "ServiceRow list"
  cache :: "string \<Rightarrow> ServiceObject option"
  outbound :: "Outbound list"

text \<open>
  The collaborators whose code is not among the sources: the two validators (pure), the
  registry client and the governance client (either may throw).
\<close>

record Collaborators =
  validate :: "ServiceSpec \<Rightarrow> ValidationResult"
  validateOpenApi :: "string \<Rightarrow> ValidationResult"
  registerService :: "ServiceSpec \<Rightarrow> string + string"
  governanceCreateApprovalWorkflow :: "PublishingWorkflowContext \<Rightarrow> string + unit"
  notifyServicePublished :: "ServiceObject \<Rightarrow> string + unit"

record PublishResult =
  serviceId :: string
  status :: ServiceStatus
  message :: string

fun join :: "string \<Rightarrow> string list \<Rightarrow> string" where
  "join sep [] = []"
| "join sep [x] = x"
| "join sep (x # y # ys) = x @ sep @ join sep (y # ys)"

definition track :: "PublishingState \<Rightarrow> string \<Rightarrow> string \<Rightarrow> PublishingState" where
  "track st eventType sid = st\<lparr> outbound := outbound st @ [AnalyticsTrack eventType sid] \<rparr>"

definition cacheKey :: "string \<Rightarrow> string" where
  "cacheKey sid = ''service:'' @ sid"

definition cacheSet :: "PublishingState \<Rightarrow> string \<Rightarrow> ServiceObject \<Rightarrow> PublishingState" where
  "cacheSet st key v = st\<lparr> cache := (cache st)(key \<mapsto> v) \<rparr>"

text \<open>
  \<^verbatim>\<open>saveService\<close>: \<^verbatim>\<open>INSERT ... ON CONFLICT (id) DO UPDATE SET\<close> of ten columns. The
  primary key is the only constraint of the table that the sources show.
\<close>

definition rowOfService :: "ServiceObject \<Rightarrow> ServiceRow" where
  "rowOfService service =
     \<lparr> ServiceRow.id = ServiceObject.id service,
       registry_id = ServiceObject.registryId service,
       name = ServiceObject.name service, version = ServiceObject.version service,
       description = ServiceObject.description service,
       provider_id = ServiceObject.providerId service,
       category = ServiceObject.category service,
       tags = (case Metadata.tags (ServiceObject.metadata service) of
                 None \<Rightarrow> [] | Some ts \<Rightarrow> ts),
       capabilities = ServiceObject.capabilities service,
       endpoint = ServiceObject.endpoint service, pricing = ServiceObject.pricing service,
       sla = ServiceObject.sla service, compliance = ServiceObject.compliance service,
       status = ServiceObject.status service,
       created_at = createdAt (ServiceObject.metadata service),
       updated_at = updatedAt (ServiceObject.metadata service),
       published_at = publishedAt (ServiceObject.metadata service),
       deprecated_at = None, suspension_reason = None \<rparr>"

definition onConflictUpdate :: "ServiceRow \<Rightarrow> ServiceRow \<Rightarrow> ServiceRow" where
  "onConflictUpdate excluded old =
     old\<lparr> ServiceRow.name := ServiceRow.name excluded,
          ServiceRow.version := ServiceRow.version excluded,
          ServiceRow.description := ServiceRow.description excluded,
          ServiceRow.capabilities := ServiceRow.capabilities excluded,
          ServiceRow.endpoint := ServiceRow.endpoint excluded,
          ServiceRow.pricing := ServiceRow.pricing excluded,
          ServiceRow.sla := ServiceRow.sla excluded,
          ServiceRow.compliance := ServiceRow.compliance excluded,
          ServiceRow.status := ServiceRow.status excluded,
          updated_at := updated_at excluded \<rparr>"

definition saveService :: "PublishingState \<Rightarrow> ServiceObject \<Rightarrow> PublishingState" where
  "saveService st service =
     (if list_ex (\<lambda>r. ServiceRow.id r = ServiceObject.id service) (services st)
      then st\<lparr> services :=
                 map (\<lambda>r. if ServiceRow.id r = ServiceObject.id service
                          then onConflictUpdate (rowOfService service) r else r)
                     (services st) \<rparr>
      else st\<lparr> services := services st @ [rowOfService service] \<rparr>)"

text \<open>\<^verbatim>\<open>UPDATE services SET status, suspension_reason, updated_at = NOW() WHERE id\<close>.\<close>

definition updateServiceStatusRow ::
  "RuntimeEnv \<Rightarrow> PublishingState \<Rightarrow> string \<Rightarrow> ServiceStatus \<Rightarrow> string option \<Rightarrow> PublishingState" where
  "updateServiceStatusRow env st sid newStatus reason =
     st\<lparr> services :=
            map (\<lambda>r. if ServiceRow.id r = sid
                     then r\<lparr> ServiceRow.status := newStatus,
                             suspension_reason :=
                               (case reason of None \<Rightarrow> None
                                | Some x \<Rightarrow> if x = [] then None else Some x),
                             updated_at := dbNow env \<rparr>
                     else r)
                (services st) \<rparr>"

text \<open>The stand-in of the source: it waits and answers \<^verbatim>\<open>true\<close>.\<close>

definition runAutomatedTestsStandIn :: "ServiceObject \<Rightarrow> bool" where
  "runAutomatedTestsStandIn service = True"

definition requiresManualApproval :: "ServiceSpec \<Rightarrow> bool" where
  "requiresManualApproval spec =
     (if map_option level (ServiceSpec.compliance spec) = Some ''confidential''
         \<or> map_option level (ServiceSpec.compliance spec) = Some ''restricted''
      then True
      else if map_option supportLevel (ServiceSpec.sla spec) = Some ''enterprise''
      then True
      else False)"

text \<open>The \<^verbatim>\<open>catch\<close> block: track the failure, throw a new error that quotes the message.\<close>

definition publishFailed ::
  "PublishingState \<Rightarrow> string \<Rightarrow> string \<Rightarrow> PublishingState \<times> (string + PublishResult)" where
  "publishFailed st sid msg = (track st ''publish_failed'' sid, Inl (''Publishing failed: '' @ msg))"

text \<open>Phases 8 and 9: cache the service, publish the events, answer.\<close>

definition announce ::
  "Collaborators \<Rightarrow> PublishingState \<Rightarrow> ServiceObject \<Rightarrow> bool
     \<Rightarrow> PublishingState \<times> (string + PublishResult)" where
  "announce deps st service needsApproval =
     (let sid = ServiceObject.id service;
          st8 = cacheSet st (cacheKey sid) service
      in case ServiceObject.pricing service of
           None \<Rightarrow>
             publishFailed st8 sid
               (''Cannot read properties of undefined (reading '' @ [CHR 0x27] @ ''model''
                @ [CHR 0x27] @ '')'')
         | Some p \<Rightarrow>
             (let st9 = (track st8 ''service_published'' sid)
                          \<lparr> outbound := outbound (track st8 ''service_published'' sid)
                                          @ [GovernanceNotifyServicePublished sid] \<rparr>
              in case notifyServicePublished deps service of
                   Inl e \<Rightarrow> publishFailed st9 sid e
                 | Inr _ \<Rightarrow>
                     (st9, Inr \<lparr> serviceId = sid, status = ServiceObject.status service,
                                 message =
                                   (if needsApproval
                                    then ''Service published successfully and pending approval''
                                    else ''Service published successfully and is now active'') \<rparr>)))"

text \<open>Phase 5: the service object, in \<^verbatim>\<open>pending_approval\<close>.\<close>

definition newService ::
  "RuntimeEnv \<Rightarrow> string \<Rightarrow> string \<Rightarrow> ServiceSpec \<Rightarrow> string \<Rightarrow> ServiceObject" where
  "newService env sid pid spec rid =
     \<lparr> ServiceObject.id = sid, registryId = rid, name = ServiceSpec.name spec,
       version = ServiceSpec.version spec,
       description = ServiceSpec.description spec, providerId = pid,
       category = ServiceSpec.category spec,
       capabilities = ServiceSpec.capabilities spec,
       endpoint = ServiceSpec.endpoint spec,
       pricing = ServiceSpec.pricing spec, sla = ServiceSpec.sla spec,
       compliance = ServiceSpec.compliance spec, status = PENDING_APPROVAL,
       metadata =
         \<lparr> createdAt = today env, updatedAt = today env,
           publishedAt = Some (today env), deprecatedAt = None,
           suspensionReason = None,
           tags = (case ServiceSpec.metadata spec of
                     None \<Rightarrow> None | Some m \<Rightarrow> Metadata.tags m),
           documentation = (case ServiceSpec.metadata spec of
                              None \<Rightarrow> None | Some m \<Rightarrow> documentation m),
           exampleUsage = (case ServiceSpec.metadata spec of
                             None \<Rightarrow> None | Some m \<Rightarrow> exampleUsage m) \<rparr>,
       openApiSpec = ServiceSpec.openApiSpec spec \<rparr>"

text \<open>The context handed to the governance client in phase 7.\<close>

definition approvalContext ::
  "RuntimeEnv \<Rightarrow> string \<Rightarrow> string \<Rightarrow> ServiceSpec \<Rightarrow> ValidationResult
     \<Rightarrow> PolicyValidationResult \<Rightarrow> string \<Rightarrow> PublishingWorkflowContext" where
  "approvalContext env sid pid spec vres pres rid =
     \<lparr> PublishingWorkflowContext.serviceId = sid, providerId = pid,
       serviceSpec = spec, validationResult = Some vres,
       policyResult = Some pres, approvalRequired = True,
       approvalStatus = Some ''pending'', registryId = Some rid,
       testResult = None, securityResult = None, benchmarkResult = None,
       startTime = today env, endTime = None \<rparr>"

text \<open>Phases 5 to 7, entered with the identifier that the registry returned.\<close>

definition persistAndGate ::
  "Collaborators \<Rightarrow> RuntimeEnv \<Rightarrow> PublishingState \<Rightarrow> string \<Rightarrow> string \<Rightarrow> ServiceSpec
     \<Rightarrow> ValidationResult \<Rightarrow> PolicyValidationResult \<Rightarrow> string
     \<Rightarrow> PublishingState \<times> (string + PublishResult)" where
  "persistAndGate deps env st sid pid spec vres pres rid =
     (let service = newService env sid pid spec rid;
          st5 = saveService st service
      in if \<not> runAutomatedTestsStandIn service then
           (updateServiceStatusRow env st5 sid FAILED_VALIDATION None,
            Inr \<lparr> serviceId = sid, status = FAILED_VALIDATION,
                  message = ''Automated tests failed'' \<rparr>)
         else if requiresManualApproval spec then
           (let st7 = st5\<lparr> outbound := outbound st5 @ [GovernanceCreateApprovalWorkflow sid] \<rparr>
            in case governanceCreateApprovalWorkflow deps
                      (approvalContext env sid pid spec vres pres rid) of
                 Inl e \<Rightarrow> publishFailed st7 sid e
               | Inr _ \<Rightarrow> announce deps st7 service True)
         else
           announce deps (updateServiceStatusRow env st5 sid ACTIVE None)
             (service\<lparr> ServiceObject.status := ACTIVE \<rparr>) False)"

text \<open>
  \<^verbatim>\<open>PublishingService.publishService\<close>; \<open>sid\<close> is the identifier that \<^verbatim>\<open>uuidv4()\<close> draws.
\<close>

definition publishService ::
  "Collaborators \<Rightarrow> RuntimeEnv \<Rightarrow> PublishingState \<Rightarrow> string \<Rightarrow> string \<Rightarrow> ServiceSpec
     \<Rightarrow> PublishingState \<times> (string + PublishResult)" where
  "publishService deps env st sid pid spec =
     (let vres = validate deps spec in
      if \<not> isValid vres then
        (track st ''validation_failed'' sid,
         Inr \<lparr> serviceId = sid, status = FAILED_VALIDATION,
               message = ''Validation failed: ''
                 @ join '', '' (map ValidationIssue.message (errors vres)) \<rparr>)
      else if (case ServiceSpec.openApiSpec spec of
                 None \<Rightarrow> False | Some doc \<Rightarrow> \<not> isValid (validateOpenApi deps doc)) then
        (st,
         Inr \<lparr> serviceId = sid, status = FAILED_VALIDATION,
               message = ''OpenAPI validation failed: ''
                 @ join '', ''
                     (map ValidationIssue.message
                        (case ServiceSpec.openApiSpec spec of
                           None \<Rightarrow> [] | Some doc \<Rightarrow> errors (validateOpenApi deps doc))) \<rparr>)
      else
        (let pres = validateService env spec in
         if \<not> compliant pres then
           (st,
            Inr \<lparr> serviceId = sid, status = SUSPENDED,
                  message = ''Policy violations: ''
                    @ join '', '' (map PolicyViolation.message (violations pres)) \<rparr>)
         else
           (let st4 = st\<lparr> outbound := outbound st @ [RegistryRegisterService spec] \<rparr>
            in case registerService deps spec of
                 Inl e \<Rightarrow> publishFailed st4 sid e
               | Inr rid \<Rightarrow>
                   persistAndGate deps env st4 sid pid spec vres
                     pres rid)))"

text \<open>
  \<^verbatim>\<open>mapDbRowToService\<close> and \<^verbatim>\<open>getService\<close>: the cache first, then the table; a row
  found is cached before it is returned.
\<close>

definition mapDbRowToService :: "ServiceRow \<Rightarrow> ServiceObject" where
  "mapDbRowToService row =
     \<lparr> ServiceObject.id = ServiceRow.id row, registryId = registry_id row,
       name = ServiceRow.name row, version = ServiceRow.version row,
       description = ServiceRow.description row, providerId = provider_id row,
       category = ServiceRow.category row, capabilities = ServiceRow.capabilities row,
       endpoint = ServiceRow.endpoint row, pricing = ServiceRow.pricing row,
       sla = ServiceRow.sla row, compliance = ServiceRow.compliance row,
       status = ServiceRow.status row,
       metadata = \<lparr> createdAt = created_at row, updatedAt = updated_at row,
                    publishedAt = published_at row, deprecatedAt = deprecated_at row,
                    suspensionReason = suspension_reason row,
                    tags = Some (ServiceRow.tags row), documentation = None,
                    exampleUsage = None \<rparr>,
       openApiSpec = None \<rparr>"

definition getService :: "PublishingState \<Rightarrow> string \<Rightarrow> PublishingState \<times> ServiceObject option" where
  "getService st sid =
     (case cache st (cacheKey sid) of
        Some cached \<Rightarrow> (st, Some cached)
      | None \<Rightarrow>
          (case filter (\<lambda>r. ServiceRow.id r = sid) (services st) of
             [] \<Rightarrow> (st, None)
           | row # _ \<Rightarrow>
               (cacheSet st (cacheKey sid) (mapDbRowToService row),
                Some (mapDbRowToService row))))"

section \<open>Service repository\<close>

text \<open>
  The repository reads and writes the tables \<^verbatim>\<open>services\<close> and \<^verbatim>\<open>users\<close> through SQL. A
  table is the list of its rows. \<^verbatim>\<open>create\<close> receives every column from a typed input,
  so the rows of this module have no null but in the three columns that it leaves to
  their defaults. The schema is not among the sources: the identifier of a new row and
  the defaults of \<^verbatim>\<open>created_at\<close> and \<^verbatim>\<open>updated_at\<close> are taken from the environment.
\<close>

record ServiceRecord =
  id :: string
  registry_id :: string
  name :: string
  version :: string
  description :: string
  provider_id :: string
  category :: string
  tags :: "string list"
  capabilities :: "string list"
  endpoint :: Endpoint
  pricing :: Pricing
  sla :: SLA
  compliance :: Compliance
  status :: ServiceStatus
  created_at :: nat
  updated_at :: nat
  published_at :: "nat option"
  deprecated_at :: "nat option"
  suspension_reason :: "string option"

record UserRow =
  first_name :: string
  last_name :: string

record Database =
  serviceTable :: "ServiceRecord list"
  userTable :: "string \<Rightarrow> UserRow option"

text \<open>What the SQL engine contributes: the clock, fresh identifiers and \<^verbatim>\<open>ILIKE\<close>.\<close>

record SqlEngine =
  sqlNow :: nat
  freshId :: string
  ilike :: "string \<Rightarrow> string \<Rightarrow> bool"

datatype AppError =
    DatabaseError string
  | NotFoundError string string
  | ConflictError string
  | ValidationError string
  | AuthorizationError string
  | ZodError string

record Provider =
  id :: string
  name :: "string option"
  verified :: "bool option"

record EntityMetadata =
  createdAt :: nat
  updatedAt :: nat
  publishedAt :: "nat option"
  deprecatedAt :: "nat option"
  suspensionReason :: "string option"

record ServiceEntity =
  id :: string
  registryId :: string
  name :: string
  version :: string
  description :: string
  provider :: Provider
  category :: string
  tags :: "string list"
  capabilities :: "string list"
  endpoint :: Endpoint
  pricing :: Pricing
  sla :: SLA
  compliance :: Compliance
  status :: ServiceStatus
  metadata :: EntityMetadata

text \<open>
  \<^verbatim>\<open>mapServiceRow\<close>, applied to a row together with the two columns that the join with
  \<^verbatim>\<open>users\<close> adds (absent after \<^verbatim>\<open>INSERT ... RETURNING *\<close>).
\<close>

definition mapServiceRow :: "ServiceRecord \<Rightarrow> string option \<Rightarrow> bool option \<Rightarrow> ServiceEntity" where
  "mapServiceRow row provider_name provider_verified =
     \<lparr> ServiceEntity.id = ServiceRecord.id row, registryId = registry_id row,
       name = ServiceRecord.name row, version = ServiceRecord.version row,
       description = ServiceRecord.description row,
       provider = \<lparr> Provider.id = ServiceRecord.provider_id row, name = provider_name,
                    verified = provider_verified \<rparr>,
       category = ServiceRecord.category row, tags = ServiceRecord.tags row,
       capabilities = ServiceRecord.capabilities row, endpoint = ServiceRecord.endpoint row,
       pricing = ServiceRecord.pricing row, sla = ServiceRecord.sla row,
       compliance = ServiceRecord.compliance row, status = ServiceRecord.status row,
       metadata = \<lparr> EntityMetadata.createdAt = ServiceRecord.created_at row,
                    updatedAt = ServiceRecord.updated_at row,
                    publishedAt = ServiceRecord.published_at row,
                    deprecatedAt = ServiceRecord.deprecated_at row,
                    suspensionReason = ServiceRecord.suspension_reason row \<rparr> \<rparr>"

text \<open>\<^verbatim>\<open>FROM services s JOIN users u ON s.provider_id = u.id\<close>, then \<^verbatim>\<open>mapServiceRow\<close>.\<close>

definition joinUsers :: "Database \<Rightarrow> ServiceRecord list \<Rightarrow> ServiceEntity list" where
  "joinUsers db rows =
     concat (map (\<lambda>s. case userTable db (ServiceRecord.provider_id s) of
                        None \<Rightarrow> []
                      | Some u \<Rightarrow> [mapServiceRow s (Some (first_name u @ '' '' @ last_name u))
                                    (Some False)])
                 rows)"

definition queryOne :: "'a list \<Rightarrow> 'a option" where
  "queryOne rows = (case rows of [] \<Rightarrow> None | r # _ \<Rightarrow> Some r)"

definition findById :: "Database \<Rightarrow> string \<Rightarrow> ServiceEntity option" where
  "findById db sid =
     queryOne (joinUsers db (filter (\<lambda>s. ServiceRecord.id s = sid) (serviceTable db)))"

definition findByNameAndVersion :: "Database \<Rightarrow> string \<Rightarrow> string \<Rightarrow> ServiceEntity option" where
  "findByNameAndVersion db n v =
     queryOne (joinUsers db
       (filter (\<lambda>s. ServiceRecord.name s = n \<and> ServiceRecord.version s = v) (serviceTable db)))"

record CreateInput =
  registryId :: string
  name :: string
  version :: string
  description :: string
  category :: string
  tags :: "string list"
  capabilities :: "string list"
  endpoint :: Endpoint
  pricing :: Pricing
  sla :: SLA
  compliance :: Compliance

definition create ::
  "SqlEngine \<Rightarrow> Database \<Rightarrow> string \<Rightarrow> CreateInput \<Rightarrow> Database \<times> (AppError + ServiceEntity)" where
  "create eng db pid input =
     (case findByNameAndVersion db (CreateInput.name input) (CreateInput.version input) of
        Some existing \<Rightarrow>
          (db, Inl (ConflictError (''Service '' @ CreateInput.name input @ '' version ''
                                   @ CreateInput.version input @ '' already exists'')))
      | None \<Rightarrow>
          (let row = \<lparr> ServiceRecord.id = freshId eng,
                       registry_id = CreateInput.registryId input,
                       name = CreateInput.name input, version = CreateInput.version input,
                       description = CreateInput.description input, provider_id = pid,
                       category = CreateInput.category input, tags = CreateInput.tags input,
                       capabilities = CreateInput.capabilities input,
                       endpoint = CreateInput.endpoint input,
                       pricing = CreateInput.pricing input, sla = CreateInput.sla input,
                       compliance = CreateInput.compliance input, status = PENDING_APPROVAL,
                       created_at = sqlNow eng, updated_at = sqlNow eng, published_at = None,
                       deprecated_at = None, suspension_reason = None \<rparr>
           in (db\<lparr> serviceTable := serviceTable db @ [row] \<rparr>,
               Inr (mapServiceRow row None None))))"

record UpdateInput =
  description :: "string option"
  tags :: "string list option"
  capabilities :: "string list option"
  endpoint :: "Endpoint option"
  pricing :: "Pricing option"
  sla :: "SLA option"
  compliance :: "Compliance option"
  status :: "ServiceStatus option"
  suspensionReason :: "string option"

text \<open>One entry of the array \<^verbatim>\<open>updates\<close>: a column and the value it is set to.\<close>

datatype Assignment =
    SetDescription string
  | SetTags "string list"
  | SetCapabilities "string list"
  | SetEndpoint Endpoint
  | SetPricing Pricing
  | SetSla SLA
  | SetCompliance Compliance
  | SetStatus ServiceStatus
  | SetPublishedAtNow
  | SetDeprecatedAtNow
  | SetSuspensionReason string

definition present :: "'a option \<Rightarrow> ('a \<Rightarrow> 'b list) \<Rightarrow> 'b list" where
  "present x f = (case x of None \<Rightarrow> [] | Some v \<Rightarrow> f v)"

definition assignments :: "UpdateInput \<Rightarrow> Assignment list" where
  "assignments input =
     present (UpdateInput.description input) (\<lambda>v. [SetDescription v])
     @ present (UpdateInput.tags input) (\<lambda>v. [SetTags v])
     @ present (UpdateInput.capabilities input) (\<lambda>v. [SetCapabilities v])
     @ present (UpdateInput.endpoint input) (\<lambda>v. [SetEndpoint v])
     @ present (UpdateInput.pricing input) (\<lambda>v. [SetPricing v])
     @ present (UpdateInput.sla input) (\<lambda>v. [SetSla v])
     @ present (UpdateInput.compliance input) (\<lambda>v. [SetCompliance v])
     @ present (UpdateInput.status input)
         (\<lambda>v. [SetStatus v]
               @ (if v = ACTIVE then [SetPublishedAtNow] else [])
               @ (if v = DEPRECATED then [SetDeprecatedAtNow] else []))
     @ present (UpdateInput.suspensionReason input) (\<lambda>v. [SetSuspensionReason v])"

fun assign :: "nat \<Rightarrow> Assignment \<Rightarrow> ServiceRecord \<Rightarrow> ServiceRecord" where
  "assign now (SetDescription v) r = r\<lparr> ServiceRecord.description := v \<rparr>"
| "assign now (SetTags v) r = r\<lparr> ServiceRecord.tags := v \<rparr>"
| "assign now (SetCapabilities v) r = r\<lparr> ServiceRecord.capabilities := v \<rparr>"
| "assign now (SetEndpoint v) r = r\<lparr> ServiceRecord.endpoint := v \<rparr>"
| "assign now (SetPricing v) r = r\<lparr> ServiceRecord.pricing := v \<rparr>"
| "assign now (SetSla v) r = r\<lparr> ServiceRecord.sla := v \<rparr>"
| "assign now (SetCompliance v) r = r\<lparr> ServiceRecord.compliance := v \<rparr>"
| "assign now (SetStatus v) r = r\<lparr> ServiceRecord.status := v \<rparr>"
| "assign now SetPublishedAtNow r = r\<lparr> ServiceRecord.published_at := Some now \<rparr>"
| "assign now SetDeprecatedAtNow r = r\<lparr> ServiceRecord.deprecated_at := Some now \<rparr>"
| "assign now (SetSuspensionReason v) r = r\<lparr> ServiceRecord.suspension_reason := Some v \<rparr>"

text \<open>
  \<^verbatim>\<open>update\<close>: \<^verbatim>\<open>UPDATE services SET <updates>, updated_at = NOW() WHERE id = $n RETURNING *\<close>,
  refused before any statement is sent when the array of updates is empty.
\<close>

definition update ::
  "SqlEngine \<Rightarrow> Database \<Rightarrow> string \<Rightarrow> UpdateInput
     \<Rightarrow> Database \<times> (AppError + ServiceEntity option)" where
  "update eng db sid input =
     (if length (assignments input) = 0 then (db, Inl (DatabaseError ''No fields to update''))
      else if filter (\<lambda>r. ServiceRecord.id r = sid) (serviceTable db) = []
      then (db, Inl (NotFoundError ''Service'' sid))
      else
        (let db' = db\<lparr> serviceTable :=
                         map (\<lambda>r. if ServiceRecord.id r = sid
                                  then (fold (assign (sqlNow eng)) (assignments input) r)
                                         \<lparr> ServiceRecord.updated_at := sqlNow eng \<rparr>
                                  else r)
                             (serviceTable db) \<rparr>
         in (db', Inr (findById db' sid))))"

text \<open>\<^verbatim>\<open>deleteService\<close>: the soft delete.\<close>

definition deleteService :: "SqlEngine \<Rightarrow> Database \<Rightarrow> string \<Rightarrow> Database" where
  "deleteService eng db sid =
     db\<lparr> serviceTable :=
            map (\<lambda>r. if ServiceRecord.id r = sid
                     then r\<lparr> ServiceRecord.status := RETIRED,
                             ServiceRecord.updated_at := sqlNow eng \<rparr>
                     else r)
                (serviceTable db) \<rparr>"

subsection \<open>Search\<close>

datatype SortColumn = SortCreatedAt | SortPublishedAt | SortName | SortPopularity

datatype SortOrder = Asc | Desc

record ServiceSearchParams =
  query :: "string option"
  category :: "string option"
  tags :: "string list option"
  status :: "ServiceStatus option"
  providerId :: "string option"
  complianceLevel :: "string option"
  minAvailability :: "rat option"
  maxLatency :: "int option"
  pricingModel :: "string option"
  limit :: "nat option"
  offset :: "nat option"
  sortBy :: "SortColumn option"
  sortOrder :: "SortOrder option"

text \<open>A string parameter is used when it is truthy: present and not empty.\<close>

definition truthy :: "string option \<Rightarrow> (string \<Rightarrow> 'b list) \<Rightarrow> 'b list" where
  "truthy x f = (case x of None \<Rightarrow> [] | Some v \<Rightarrow> if v = [] then [] else f v)"

text \<open>The array \<^verbatim>\<open>conditions\<close>, each entry as the predicate on a row that it denotes.\<close>

definition conditions :: "SqlEngine \<Rightarrow> ServiceSearchParams \<Rightarrow> (ServiceRecord \<Rightarrow> bool) list" where
  "conditions eng params =
     truthy (query params)
       (\<lambda>q. [\<lambda>s. ilike eng (ServiceRecord.name s) (''%'' @ q @ ''%'')
                   \<or> ilike eng (ServiceRecord.description s) (''%'' @ q @ ''%'')
                   \<or> (''%'' @ q @ ''%'') \<in> set (ServiceRecord.tags s)])
     @ truthy (ServiceSearchParams.category params) (\<lambda>c. [\<lambda>s. ServiceRecord.category s = c])
     @ (case ServiceSearchParams.tags params of
          None \<Rightarrow> []
        | Some ts \<Rightarrow> if length ts > 0
                     then [\<lambda>s. list_ex (\<lambda>t. t \<in> set ts) (ServiceRecord.tags s)] else [])
     @ (case ServiceSearchParams.status params of
          Some st \<Rightarrow> [\<lambda>s. ServiceRecord.status s = st]
        | None \<Rightarrow> [\<lambda>s. ServiceRecord.status s = ACTIVE])
     @ truthy (providerId params) (\<lambda>p. [\<lambda>s. ServiceRecord.provider_id s = p])
     @ truthy (complianceLevel params) (\<lambda>l. [\<lambda>s. level (ServiceRecord.compliance s) = l])
     @ (case minAvailability params of
          None \<Rightarrow> [] | Some a \<Rightarrow> [\<lambda>s. availability (ServiceRecord.sla s) \<ge> a])
     @ (case ServiceSearchParams.maxLatency params of
          None \<Rightarrow> [] | Some l \<Rightarrow> [\<lambda>s. SLA.maxLatency (ServiceRecord.sla s) \<le> l])
     @ truthy (pricingModel params) (\<lambda>m. [\<lambda>s. model (ServiceRecord.pricing s) = m])"

definition whereClause :: "SqlEngine \<Rightarrow> ServiceSearchParams \<Rightarrow> ServiceRecord \<Rightarrow> bool" where
  "whereClause eng params s = list_all (\<lambda>c. c s) (conditions eng params)"

text \<open>
  \<^verbatim>\<open>ORDER BY\<close>: an insertion sort by the column that \<^verbatim>\<open>orderByMap\<close> selects. Text is
  compared by character codes, nulls sort as larger than any value, and rows with equal
  keys keep an order that SQL leaves open.
\<close>

fun stringLe :: "string \<Rightarrow> string \<Rightarrow> bool" where
  "stringLe [] ys = True"
| "stringLe (x # xs) [] = False"
| "stringLe (x # xs) (y # ys) =
     ((of_char x :: nat) < of_char y \<or> (x = y \<and> stringLe xs ys))"

definition nullsLastLe :: "nat option \<Rightarrow> nat option \<Rightarrow> bool" where
  "nullsLastLe a b =
     (case b of None \<Rightarrow> True
      | Some y \<Rightarrow> (case a of None \<Rightarrow> False | Some x \<Rightarrow> x \<le> y))"

definition ascending :: "SortColumn \<Rightarrow> ServiceRecord \<Rightarrow> ServiceRecord \<Rightarrow> bool" where
  "ascending col a b =
     (case col of
        SortCreatedAt \<Rightarrow> ServiceRecord.created_at a \<le> ServiceRecord.created_at b
      | SortPublishedAt \<Rightarrow> nullsLastLe (ServiceRecord.published_at a) (ServiceRecord.published_at b)
      | SortName \<Rightarrow> stringLe (ServiceRecord.name a) (ServiceRecord.name b)
      | SortPopularity \<Rightarrow> ServiceRecord.created_at a \<le> ServiceRecord.created_at b)"

fun insertRow :: "('a \<Rightarrow> 'a \<Rightarrow> bool) \<Rightarrow> 'a \<Rightarrow> 'a list \<Rightarrow> 'a list" where
  "insertRow le x [] = [x]"
| "insertRow le x (y # ys) = (if le x y then x # y # ys else y # insertRow le x ys)"

definition orderBy :: "ServiceSearchParams \<Rightarrow> ServiceRecord list \<Rightarrow> ServiceRecord list" where
  "orderBy params rows =
     (let col = (case sortBy params of None \<Rightarrow> SortCreatedAt | Some c \<Rightarrow> c);
          dir = (case sortOrder params of None \<Rightarrow> Desc | Some d \<Rightarrow> d)
      in foldr (insertRow (case dir of Asc \<Rightarrow> ascending col
                           | Desc \<Rightarrow> (\<lambda>a b. ascending col b a)))
               rows [])"

record SearchResult =
  services :: "ServiceEntity list"
  total :: nat

definition search :: "SqlEngine \<Rightarrow> Database \<Rightarrow> ServiceSearchParams \<Rightarrow> SearchResult" where
  "search eng db params =
     (let matching = filter (whereClause eng params) (serviceTable db);
          lim = (case limit params of None \<Rightarrow> 20 | Some l \<Rightarrow> if l = 0 then 20 else l);
          off = (case offset params of None \<Rightarrow> 0 | Some k \<Rightarrow> k)
      in \<lparr> services = take lim (drop off (joinUsers db (orderBy params
                          (filter (\<lambda>s. userTable db (ServiceRecord.provider_id s) \<noteq> None)
                             matching)))),
           total = length matching \<rparr>)"

section \<open>Service controller\<close>

datatype UserRole = ADMIN | PROVIDER | CONSUMER | VIEWER

record RequestUser =
  id :: string
  role :: UserRole

text \<open>
  Modelled from the spec: \<^verbatim>\<open>isValidStatusTransition\<close> and the strings of the enumeration
  \<^verbatim>\<open>ServiceStatus\<close>, both of \<^verbatim>\<open>../models/service.model\<close>, which is not among the sources.
  The table of section 3 names the statuses and gives, for each, the statuses it exits to.
\<close>

fun statusText :: "ServiceStatus \<Rightarrow> string" where
  "statusText PENDING_APPROVAL = ''pending_approval''"
| "statusText ACTIVE = ''active''"
| "statusText DEPRECATED = ''deprecated''"
| "statusText SUSPENDED = ''suspended''"
| "statusText RETIRED = ''retired''"
| "statusText FAILED_VALIDATION = ''failed_validation''"

fun isValidStatusTransition :: "ServiceStatus \<Rightarrow> ServiceStatus \<Rightarrow> bool" where
  "isValidStatusTransition PENDING_APPROVAL t = (t = ACTIVE \<or> t = SUSPENDED \<or> t = FAILED_VALIDATION)"
| "isValidStatusTransition ACTIVE t = (t = DEPRECATED \<or> t = SUSPENDED)"
| "isValidStatusTransition DEPRECATED t = (t = RETIRED)"
| "isValidStatusTransition SUSPENDED t = (t = ACTIVE \<or> t = RETIRED)"
| "isValidStatusTransition RETIRED t = False"
| "isValidStatusTransition FAILED_VALIDATION t = False"

text \<open>
  \<^verbatim>\<open>PUT /services/:id\<close>. \<open>body\<close> is what \<^verbatim>\<open>updateServiceSchema.parse(req.body)\<close> does: it
  throws or returns the validated input.
\<close>

definition updateServiceHandler ::
  "SqlEngine \<Rightarrow> Database \<Rightarrow> RequestUser \<Rightarrow> string \<Rightarrow> (AppError + UpdateInput)
     \<Rightarrow> Database \<times> (AppError + ServiceEntity option)" where
  "updateServiceHandler eng db user sid body =
     (case findById db sid of
        None \<Rightarrow> (db, Inl (NotFoundError ''Service'' sid))
      | Some existingService \<Rightarrow>
          if role user \<noteq> ADMIN
             \<and> Provider.id (provider existingService) \<noteq> RequestUser.id user
          then (db, Inl (AuthorizationError ''You can only update your own services''))
          else
            (case body of
               Inl err \<Rightarrow> (db, Inl err)
             | Inr validated \<Rightarrow>
                 (case UpdateInput.status validated of
                    None \<Rightarrow> update eng db sid validated
                  | Some requested \<Rightarrow>
                      if requested \<noteq> ServiceEntity.status existingService
                         \<and> \<not> isValidStatusTransition (ServiceEntity.status existingService)
                                requested
                      then (db, Inl (ValidationError
                                       (''Invalid status transition from ''
                                        @ statusText (ServiceEntity.status existingService)
                                        @ '' to '' @ statusText requested)))
                      else update eng db sid validated)))"

definition statusOnly :: "ServiceStatus \<Rightarrow> UpdateInput" where
  "statusOnly st =
     \<lparr> UpdateInput.description = None, tags = None, capabilities = None, endpoint = None,
       pricing = None, sla = None, compliance = None, status = Some st,
       suspensionReason = None \<rparr>"

text \<open>\<^verbatim>\<open>PUT /services/:id/publish\<close>, \<^verbatim>\<open>/deprecate\<close>, \<^verbatim>\<open>/suspend\<close> and \<^verbatim>\<open>DELETE /services/:id\<close>.\<close>

definition publishServiceHandler ::
  "SqlEngine \<Rightarrow> Database \<Rightarrow> RequestUser \<Rightarrow> string
     \<Rightarrow> Database \<times> (AppError + ServiceEntity option)" where
  "publishServiceHandler eng db user sid =
     (case findById db sid of
        None \<Rightarrow> (db, Inl (NotFoundError ''Service'' sid))
      | Some existingService \<Rightarrow> update eng db sid (statusOnly ACTIVE))"

definition deprecateServiceHandler ::
  "SqlEngine \<Rightarrow> Database \<Rightarrow> RequestUser \<Rightarrow> string
     \<Rightarrow> Database \<times> (AppError + ServiceEntity option)" where
  "deprecateServiceHandler eng db user sid = update eng db sid (statusOnly DEPRECATED)"

definition suspendServiceHandler ::
  "SqlEngine \<Rightarrow> Database \<Rightarrow> RequestUser \<Rightarrow> string \<Rightarrow> string option
     \<Rightarrow> Database \<times> (AppError + ServiceEntity option)" where
  "suspendServiceHandler eng db user sid reason =
     update eng db sid ((statusOnly SUSPENDED)\<lparr> UpdateInput.suspensionReason := reason \<rparr>)"

definition deleteServiceHandler ::
  "SqlEngine \<Rightarrow> Database \<Rightarrow> RequestUser \<Rightarrow> string \<Rightarrow> Database \<times> (AppError + unit)" where
  "deleteServiceHandler eng db user sid =
     (case findById db sid of
        None \<Rightarrow> (db, Inl (NotFoundError ''Service'' sid))
      | Some existingService \<Rightarrow>
          if role user \<noteq> ADMIN
             \<and> Provider.id (provider existingService) \<noteq> RequestUser.id user
          then (db, Inl (AuthorizationError ''You can only delete your own services''))
          else (deleteService eng db sid, Inr ()))"

definition createServiceHandler ::
  "SqlEngine \<Rightarrow> Database \<Rightarrow> RequestUser \<Rightarrow> (AppError + CreateInput)
     \<Rightarrow> Database \<times> (AppError + ServiceEntity)" where
  "createServiceHandler eng db user body =
     (case body of
        Inl err \<Rightarrow> (db, Inl err)
      | Inr validated \<Rightarrow> create eng db (RequestUser.id user) validated)"

section \<open>Observations on a run of the workflow\<close>

text \<open>
  The vocabulary of the statements about the workflow: how often an activity was called
  in a trace, the calls and pauses of attempts \<open>i\<close> to \<open>j - 1\<close> that all failed, the
  steps before registration, and the context that the workflow holds once they passed.
\<close>

definition invocations :: "Activity \<Rightarrow> WorkflowEvent list \<Rightarrow> nat" where
  "invocations a tr = length (filter (\<lambda>e. e = Invoke a) tr)"

definition backoff :: "Activity \<Rightarrow> nat \<Rightarrow> nat \<Rightarrow> WorkflowEvent list" where
  "backoff a i j = concat (map (\<lambda>k. [Invoke a, Sleep (2 ^ (k - 1) * 1000)]) [i..<j])"


definition gateContext ::
  "Activities \<Rightarrow> WorkflowClock \<Rightarrow> string \<Rightarrow> string \<Rightarrow> ServiceSpec \<Rightarrow> PublishingWorkflowContext" where
  "gateContext acts clk sid pid spec =
     \<lparr> PublishingWorkflowContext.serviceId = sid, providerId = pid, serviceSpec = spec,
       validationResult =
         (case snd (retryActivity ValidateServiceSpec (validateServiceSpec acts spec) 3) of
            Inr vr \<Rightarrow> Some vr | Inl e \<Rightarrow> None),
       policyResult =
         (case snd (retryActivity CheckPolicyCompliance (checkPolicyCompliance acts spec) 3) of
            Inr pr \<Rightarrow> Some pr | Inl e \<Rightarrow> None),
       approvalRequired = False,
       approvalStatus = None, registryId = None, testResult = None,
       securityResult = None, benchmarkResult = None,
       startTime = startedAt clk, endTime = None \<rparr>"



section \<open>Observations on the publishing service\<close>

text \<open>
  The vocabulary of the statements about \<^verbatim>\<open>publishService\<close>: rejection before registration,
  passing the phases up to registration, the registry and approval calls among the
  outbound calls, and the statuses stored under an identifier.
\<close>

definition rejectedBeforeRegistration :: "Collaborators \<Rightarrow> RuntimeEnv \<Rightarrow> ServiceSpec \<Rightarrow> bool" where
  "rejectedBeforeRegistration deps env spec =
     (\<not> isValid (validate deps spec)
      \<or> (case ServiceSpec.openApiSpec spec of
            None \<Rightarrow> False | Some doc \<Rightarrow> \<not> isValid (validateOpenApi deps doc))
      \<or> \<not> compliant (validateService env spec))"

definition registryCalls :: "Outbound list \<Rightarrow> ServiceSpec list" where
  "registryCalls calls =
     concat (map (\<lambda>c. case c of RegistryRegisterService spec \<Rightarrow> [spec] | _ \<Rightarrow> []) calls)"

definition approvalCalls :: "Outbound list \<Rightarrow> string list" where
  "approvalCalls calls =
     concat (map (\<lambda>c. case c of GovernanceCreateApprovalWorkflow sid \<Rightarrow> [sid] | _ \<Rightarrow> []) calls)"

definition passesPhases :: "Collaborators \<Rightarrow> RuntimeEnv \<Rightarrow> ServiceSpec \<Rightarrow> string \<Rightarrow> bool" where
  "passesPhases deps env spec rid =
     (isValid (validate deps spec)
      \<and> (case ServiceSpec.openApiSpec spec of
            None \<Rightarrow> True | Some doc \<Rightarrow> isValid (validateOpenApi deps doc))
      \<and> compliant (validateService env spec)
      \<and> registerService deps spec = Inr rid)"

definition storedStatus :: "PublishingState \<Rightarrow> string \<Rightarrow> ServiceStatus list" where
  "storedStatus st sid =
     map ServiceRow.status (filter (\<lambda>r. ServiceRow.id r = sid) (PublishingState.services st))"

section \<open>Sample data\<close>

text \<open>
  The specification of the happy-path scenario, and activity objects that differ from the
  stand-ins of the source in one method each.
\<close>

definition sampleSpec :: ServiceSpec where
  "sampleSpec =
     \<lparr> ServiceSpec.name = Some ''gpt-x'', version = Some ''1.0.0'',
       description = Some ''Text generation service'', category = Some ''text-generation'',
       capabilities = Some [''chat''],
       endpoint = Some \<lparr> url = ''https://api.example.com/v1'', authentication = ''api-key'' \<rparr>,
       pricing = Some \<lparr> model = ''pay-per-use'' \<rparr>,
       sla = Some \<lparr> availability = 999 / 10, maxLatency = 500, supportLevel = ''standard'' \<rparr>,
       compliance = Some \<lparr> level = ''public'', dataResidency = [''US''], certifications = None \<rparr>,
       metadata = None, openApiSpec = None \<rparr>"

definition sampleDeps :: Collaborators where
  "sampleDeps =
     \<lparr> validate =
         (\<lambda>spec. if ServiceSpec.name spec = None
                  then \<lparr> isValid = False,
                         errors = [\<lparr> field = ''name'', message = ''name is required'' \<rparr>],
                         warnings = [] \<rparr>
                  else \<lparr> isValid = True, errors = [], warnings = [] \<rparr>),
       validateOpenApi =
         (\<lambda>doc. if doc = []
                 then \<lparr> isValid = False,
                        errors = [\<lparr> field = ''openapi'', message = ''document is empty'' \<rparr>],
                        warnings = [] \<rparr>
                 else \<lparr> isValid = True, errors = [], warnings = [] \<rparr>),
       registerService = (\<lambda>spec. Inr ''registry-id-12345''),
       governanceCreateApprovalWorkflow = (\<lambda>context. Inr ()),
       notifyServicePublished = (\<lambda>service. Inr ()) \<rparr>"

definition confidentialSpec :: ServiceSpec where
  "confidentialSpec =
     sampleSpec\<lparr> ServiceSpec.compliance :=
                   Some \<lparr> level = ''confidential'', dataResidency = [''US''],
                          certifications = Some [''SOC2''] \<rparr> \<rparr>"

definition namelessSpec :: ServiceSpec where
  "namelessSpec = sampleSpec\<lparr> ServiceSpec.name := None \<rparr>"

definition embargoedSpec :: ServiceSpec where
  "embargoedSpec =
     sampleSpec\<lparr> ServiceSpec.compliance :=
                   Some \<lparr> level = ''public'', dataResidency = [''US'', ''KP''],
                          certifications = None \<rparr> \<rparr>"

definition sampleEnv :: RuntimeEnv where
  "sampleEnv = \<lparr> nodeEnv = Some ''production'', today = 100, dbNow = 101 \<rparr>"

definition emptyState :: PublishingState where
  "emptyState = \<lparr> PublishingState.services = [], cache = (\<lambda>key. None), outbound = [] \<rparr>"

definition sampleEngine :: SqlEngine where
  "sampleEngine = \<lparr> sqlNow = 200, freshId = ''s4'', ilike = (\<lambda>txt pattern. txt = pattern) \<rparr>"

definition sampleRecord :: "string \<Rightarrow> ServiceStatus \<Rightarrow> ServiceRecord" where
  "sampleRecord sid st =
     \<lparr> ServiceRecord.id = sid, registry_id = ''registry-'' @ sid, name = ''gpt-x'',
       version = ''1.0.'' @ sid, description = ''Text generation service'',
       provider_id = ''prov-1'', category = ''text-generation'', tags = [''llm''],
       capabilities = [''chat''],
       endpoint = \<lparr> url = ''https://api.example.com/v1'', authentication = ''api-key'' \<rparr>,
       pricing = \<lparr> model = ''pay-per-use'' \<rparr>,
       sla = \<lparr> availability = 999 / 10, maxLatency = 500, supportLevel = ''standard'' \<rparr>,
       compliance = \<lparr> level = ''public'', dataResidency = [''US''], certifications = None \<rparr>,
       status = st, created_at = 10, updated_at = 10, published_at = None,
       deprecated_at = None, suspension_reason = None \<rparr>"

definition sampleDb :: Database where
  "sampleDb =
     \<lparr> serviceTable = [sampleRecord ''s1'' ACTIVE, sampleRecord ''s2'' RETIRED,
                        sampleRecord ''s3'' PENDING_APPROVAL],
       userTable = (\<lambda>u. if u = ''prov-1''
                         then Some \<lparr> first_name = ''Ada'', last_name = ''Lovelace'' \<rparr>
                         else None) \<rparr>"

definition noFilter :: ServiceSearchParams where
  "noFilter =
     \<lparr> query = None, category = None, tags = None, status = None, providerId = None,
       complianceLevel = None, minAvailability = None, maxLatency = None,
       pricingModel = None, limit = None, offset = None, sortBy = None, sortOrder = None \<rparr>"

definition noChange :: UpdateInput where
  "noChange =
     \<lparr> UpdateInput.description = None, tags = None, capabilities = None, endpoint = None,
       pricing = None, sla = None, compliance = None, status = None,
       suspensionReason = None \<rparr>"

definition sampleProvider :: RequestUser where
  "sampleProvider = \<lparr> RequestUser.id = ''prov-1'', role = PROVIDER \<rparr>"

definition sampleClock :: WorkflowClock where
  "sampleClock = \<lparr> startedAt = 0, builtAt = 1, finishedAt = 2 \<rparr>"




definition brokenStore :: Activities where
  "brokenStore =
     (PublishingWorkflowActivities 0)
       \<lparr> saveServiceToDatabase := (\<lambda>service k. Inl ''connection refused'') \<rparr>"

section \<open>Properties of the test orchestrator\<close>



section \<open>Properties of the workflow\<close>

lemma invocations_append [simp]: "invocations a (xs @ ys) = invocations a xs + invocations a ys"
  by (simp add: invocations_def)

lemma invocations_Nil [simp]: "invocations a [] = 0"
  by (simp add: invocations_def)

lemma invocations_Cons [simp]:
  "invocations a (e # tr) = (if e = Invoke a then Suc (invocations a tr) else invocations a tr)"
  by (simp add: invocations_def)

lemma backoff_step: "i < j \<Longrightarrow> backoff a i j = Invoke a # Sleep (2 ^ (i - 1) * 1000) # backoff a (Suc i) j"
  by (simp add: backoff_def upt_conv_Cons)

lemma backoff_empty [simp]: "backoff a i i = []"
  by (simp add: backoff_def)













lemma invocations_finish [simp]: "invocations b (fst (finish v)) = 0"
  by (simp add: finish_def)








lemma snd_rollbackOnFailure_None [simp]: "rollbackOnFailure acts sid None run = run"
  by (simp add: rollbackOnFailure_def split: sum.splits)




lemma invocations_backoff [simp]: "invocations a (backoff a i j) = j - i"
proof (induction "j - i" arbitrary: i)
  case 0
  then show ?case by (simp add: backoff_def)
next
  case (Suc d)
  then have "i < j" by simp
  with Suc show ?case by (simp add: backoff_step)
qed


















lemma execute_brokenStore:
  "execute brokenStore sampleClock ''svc-1'' ''prov-1'' sampleSpec
     = ([Invoke ValidateServiceSpec, Invoke CheckPolicyCompliance, Invoke RegisterWithRegistry,
         Invoke SaveServiceToDatabase, Sleep 1000, Invoke SaveServiceToDatabase, Sleep 2000,
         Invoke SaveServiceToDatabase, Sleep 4000, Invoke SaveServiceToDatabase, Sleep 8000,
         Invoke SaveServiceToDatabase,
         Invoke (RollbackPublication ''svc-1'' ''registry-id-12345'')],
        Inl ''Activity failed after 5 retries: connection refused'')"
  by (simp add: execute_def afterRegistration_def approvalGate_def activate_def
        rollbackOnFailure_def andThen_def once_def finish_def parallel3_def parallel2_def
        promiseAll3_def retryActivity_def retryLoop.simps PublishingWorkflowActivities_def
        brokenStore_def sampleSpec_def sampleClock_def gateContext_def requiresApproval_def
        buildService_def digit_def)



section \<open>Properties of the publishing service\<close>

lemma registryCalls_append [simp]: "registryCalls (xs @ ys) = registryCalls xs @ registryCalls ys"
  by (simp add: registryCalls_def)

lemma approvalCalls_append [simp]: "approvalCalls (xs @ ys) = approvalCalls xs @ approvalCalls ys"
  by (simp add: approvalCalls_def)

lemma registryCalls_simps [simp]:
  "registryCalls [] = []"
  "registryCalls (RegistryRegisterService spec # cs) = spec # registryCalls cs"
  "registryCalls (AnalyticsTrack e sid # cs) = registryCalls cs"
  "registryCalls (GovernanceCreateApprovalWorkflow sid # cs) = registryCalls cs"
  "registryCalls (GovernanceNotifyServicePublished sid # cs) = registryCalls cs"
  by (simp_all add: registryCalls_def)

lemma approvalCalls_simps [simp]:
  "approvalCalls [] = []"
  "approvalCalls (RegistryRegisterService spec # cs) = approvalCalls cs"
  "approvalCalls (AnalyticsTrack e sid # cs) = approvalCalls cs"
  "approvalCalls (GovernanceCreateApprovalWorkflow sid # cs) = sid # approvalCalls cs"
  "approvalCalls (GovernanceNotifyServicePublished sid # cs) = approvalCalls cs"
  by (simp_all add: approvalCalls_def)

text \<open>
  C4. When the validator reports the specification invalid, \<^verbatim>\<open>publishService\<close> returns the
  status failed_validation with the validator's messages; the only call that leaves the
  process is the analytics event, the registry client is not invoked, and the table is
  unchanged.
\<close>

theorem structural_failure_never_reaches_registry:
  "\<not> isValid (validate deps spec) \<Longrightarrow>
     snd (publishService deps env st sid pid spec)
       = Inr \<lparr> serviceId = sid, status = FAILED_VALIDATION,
               message = ''Validation failed: ''
                 @ join '', '' (map ValidationIssue.message (errors (validate deps spec))) \<rparr>
     \<and> outbound (fst (publishService deps env st sid pid spec))
           = outbound st @ [AnalyticsTrack ''validation_failed'' sid]
     \<and> registryCalls (outbound (fst (publishService deps env st sid pid spec)))
           = registryCalls (outbound st)
     \<and> PublishingState.services (fst (publishService deps env st sid pid spec))
           = PublishingState.services st"
  by (simp add: publishService_def track_def)

lemma publishService_rejected:
  assumes "rejectedBeforeRegistration deps env spec"
  shows "PublishingState.services (fst (publishService deps env st sid pid spec)) = PublishingState.services st"
    and "cache (fst (publishService deps env st sid pid spec)) = cache st"
    and "registryCalls (outbound (fst (publishService deps env st sid pid spec))) = registryCalls (outbound st)"
    and "\<exists>msg stat. snd (publishService deps env st sid pid spec)
                 = Inr \<lparr> serviceId = sid, status = stat, message = msg \<rparr>
              \<and> (stat = FAILED_VALIDATION \<or> stat = SUSPENDED)"
  using assms
  by (auto simp: publishService_def track_def rejectedBeforeRegistration_def Let_def
      split: option.splits)

lemma getService_absent:
  assumes "\<forall>r \<in> set (PublishingState.services st). ServiceRow.id r \<noteq> sid"
    and "cache st (cacheKey sid) = None"
  shows "getService st sid = (st, None)"
proof -
  have "filter (\<lambda>r. ServiceRow.id r = sid) (PublishingState.services st) = []"
    using assms(1) by (simp add: filter_empty_conv)
  then show ?thesis using assms(2) by (simp add: getService_def)
qed

text \<open>
  C8. When \<^verbatim>\<open>publishService\<close> rejects a specification before registration (the validator or
  the OpenAPI validator reports it invalid, or the policy check finds it not compliant), it
  returns failed_validation or suspended with the fresh identifier, the table and the
  cache are unchanged, and a lookup of that identifier finds nothing.
\<close>

theorem rejected_submission_leaves_no_record:
  "rejectedBeforeRegistration deps env spec
   \<Longrightarrow> \<forall>r \<in> set (PublishingState.services st). ServiceRow.id r \<noteq> sid
   \<Longrightarrow> cache st (cacheKey sid) = None
   \<Longrightarrow> (\<exists>msg stat. snd (publishService deps env st sid pid spec)
                        = Inr \<lparr> serviceId = sid, status = stat, message = msg \<rparr>
                    \<and> (stat = FAILED_VALIDATION \<or> stat = SUSPENDED))
       \<and> PublishingState.services (fst (publishService deps env st sid pid spec))
           = PublishingState.services st
       \<and> cache (fst (publishService deps env st sid pid spec)) = cache st
       \<and> getService (fst (publishService deps env st sid pid spec)) sid
           = (fst (publishService deps env st sid pid spec), None)"
  using publishService_rejected[of deps env spec st sid pid]
    getService_absent[of "fst (publishService deps env st sid pid spec)" sid]
  by simp

lemma status_after_rewrite:
  assumes "\<And>r. ServiceRow.id (f r) = ServiceRow.id r"
  shows "map ServiceRow.status
           (filter (\<lambda>r. ServiceRow.id r = k) (map (\<lambda>r. if ServiceRow.id r = k then f r else r) xs))
         = map (\<lambda>r. ServiceRow.status (f r)) (filter (\<lambda>r. ServiceRow.id r = k) xs)"
  using assms by (induction xs) auto

lemma storedStatus_saveService:
  "set (storedStatus (saveService st service) (ServiceObject.id service))
     = {ServiceObject.status service}"
proof (cases "list_ex (\<lambda>r. ServiceRow.id r = ServiceObject.id service) (PublishingState.services st)")
  case True
  then have ne: "filter (\<lambda>r. ServiceRow.id r = ServiceObject.id service) (PublishingState.services st) \<noteq> []"
    by (auto simp: list_ex_iff filter_empty_conv)
  have "storedStatus (saveService st service) (ServiceObject.id service)
          = map (\<lambda>r. ServiceObject.status service)
              (filter (\<lambda>r. ServiceRow.id r = ServiceObject.id service) (PublishingState.services st))"
    using True
    by (simp add: storedStatus_def saveService_def
          status_after_rewrite[where f = "onConflictUpdate (rowOfService service)"]
          onConflictUpdate_def rowOfService_def)
  moreover have "set (filter (\<lambda>r. ServiceRow.id r = ServiceObject.id service) (PublishingState.services st)) \<noteq> {}"
    using ne by (simp only: set_empty not_False_eq_True)
  ultimately show ?thesis by (simp add: image_constant_conv del: set_filter)
next
  case False
  then have "filter (\<lambda>r. ServiceRow.id r = ServiceObject.id service) (PublishingState.services st) = []"
    by (auto simp: list_ex_iff filter_empty_conv)
  then show ?thesis using False
    by (simp add: storedStatus_def saveService_def rowOfService_def)
qed

lemma storedStatus_updateServiceStatusRow:
  "storedStatus (updateServiceStatusRow env st sid x reason) sid = map (\<lambda>_. x) (storedStatus st sid)"
  by (simp add: storedStatus_def updateServiceStatusRow_def
        status_after_rewrite[where f = "\<lambda>r. r\<lparr> ServiceRow.status := x,
                             ServiceRow.suspension_reason :=
                               (case reason of None \<Rightarrow> None
                                | Some x \<Rightarrow> if x = [] then None else Some x),
                             ServiceRow.updated_at := dbNow env \<rparr>"] o_def)

lemma storedStatus_frame [simp]:
  "storedStatus (st\<lparr> outbound := x \<rparr>) sid = storedStatus st sid"
  "storedStatus (st\<lparr> cache := y \<rparr>) sid = storedStatus st sid"
  by (simp_all add: storedStatus_def)

lemma announce_frame:
  "PublishingState.services (fst (announce deps st service b)) = PublishingState.services st"
  "approvalCalls (outbound (fst (announce deps st service b))) = approvalCalls (outbound st)"
  "registryCalls (outbound (fst (announce deps st service b))) = registryCalls (outbound st)"
  by (simp_all add: announce_def publishFailed_def track_def cacheSet_def Let_def
        split: option.splits sum.splits)

lemma storedStatus_announce [simp]:
  "storedStatus (fst (announce deps st service b)) sid = storedStatus st sid"
  by (simp add: storedStatus_def announce_frame)

lemma announce_result:
  "ServiceObject.pricing service \<noteq> None \<Longrightarrow> notifyServicePublished deps service = Inr ()
   \<Longrightarrow> snd (announce deps st service b)
       = Inr \<lparr> serviceId = ServiceObject.id service, status = ServiceObject.status service,
               message = (if b then ''Service published successfully and pending approval''
                          else ''Service published successfully and is now active'') \<rparr>"
  by (auto simp: announce_def Let_def split: option.splits)

lemma announce_status:
  "snd (announce deps st service b) = Inr r \<Longrightarrow> PublishResult.status r = ServiceObject.status service"
  by (auto simp: announce_def publishFailed_def Let_def split: option.splits sum.splits)

lemma updateServiceStatusRow_outbound [simp]:
  "outbound (updateServiceStatusRow env st sid x reason) = outbound st"
  by (simp add: updateServiceStatusRow_def)

lemma saveService_outbound [simp]: "outbound (saveService st service) = outbound st"
  by (simp add: saveService_def)

lemma persistAndGate_without_trigger:
  assumes "\<not> requiresManualApproval spec"
  shows "set (storedStatus (fst (persistAndGate deps env st sid pid spec v p rid)) sid) = {ACTIVE}"
    and "approvalCalls (outbound (fst (persistAndGate deps env st sid pid spec v p rid)))
           = approvalCalls (outbound st)"
    and "ServiceSpec.pricing spec \<noteq> None \<Longrightarrow> \<forall>s. notifyServicePublished deps s = Inr ()
         \<Longrightarrow> snd (persistAndGate deps env st sid pid spec v p rid)
             = Inr \<lparr> serviceId = sid, status = ACTIVE,
                     message = ''Service published successfully and is now active'' \<rparr>"
proof -
  let ?service = "newService env sid pid spec rid"
  have e: "persistAndGate deps env st sid pid spec v p rid
            = announce deps (updateServiceStatusRow env (saveService st ?service) sid ACTIVE None)
                (?service\<lparr> ServiceObject.status := ACTIVE \<rparr>) False"
    using assms by (simp add: persistAndGate_def runAutomatedTestsStandIn_def Let_def)
  have s: "set (storedStatus (saveService st ?service) sid) = {PENDING_APPROVAL}"
    using storedStatus_saveService[of st ?service] by (simp add: newService_def)
  show "set (storedStatus (fst (persistAndGate deps env st sid pid spec v p rid)) sid) = {ACTIVE}"
    using s by (simp add: e storedStatus_updateServiceStatusRow image_constant_conv)
  show "approvalCalls (outbound (fst (persistAndGate deps env st sid pid spec v p rid)))
           = approvalCalls (outbound st)"
    by (simp add: e announce_frame)
  show "snd (persistAndGate deps env st sid pid spec v p rid)
             = Inr \<lparr> serviceId = sid, status = ACTIVE,
                     message = ''Service published successfully and is now active'' \<rparr>"
    if "ServiceSpec.pricing spec \<noteq> None" "\<forall>s. notifyServicePublished deps s = Inr ()"
    using that by (simp add: e announce_result newService_def)
qed

lemma persistAndGate_with_trigger:
  assumes "requiresManualApproval spec"
  shows "set (storedStatus (fst (persistAndGate deps env st sid pid spec v p rid)) sid)
           = {PENDING_APPROVAL}"
    and "approvalCalls (outbound (fst (persistAndGate deps env st sid pid spec v p rid)))
           = approvalCalls (outbound st) @ [sid]"
    and "snd (persistAndGate deps env st sid pid spec v p rid) = Inr r
         \<Longrightarrow> PublishResult.status r = PENDING_APPROVAL"
proof -
  let ?service = "newService env sid pid spec rid"
  let ?st7 = "(saveService st ?service)\<lparr> outbound := outbound st @ [GovernanceCreateApprovalWorkflow sid] \<rparr>"
  have s: "set (storedStatus (saveService st ?service) sid) = {PENDING_APPROVAL}"
    using storedStatus_saveService[of st ?service] by (simp add: newService_def)
  have st7: "set (storedStatus ?st7 sid) = {PENDING_APPROVAL}"
    "approvalCalls (outbound ?st7) = approvalCalls (outbound st) @ [sid]"
    using s by simp_all
  show "set (storedStatus (fst (persistAndGate deps env st sid pid spec v p rid)) sid)
           = {PENDING_APPROVAL}"
    and "approvalCalls (outbound (fst (persistAndGate deps env st sid pid spec v p rid)))
           = approvalCalls (outbound st) @ [sid]"
    and "snd (persistAndGate deps env st sid pid spec v p rid) = Inr r
         \<Longrightarrow> PublishResult.status r = PENDING_APPROVAL"
  proof (atomize (full), cases "governanceCreateApprovalWorkflow deps (approvalContext env sid pid spec v p rid)")
    case (Inl m)
    then have e: "persistAndGate deps env st sid pid spec v p rid = publishFailed ?st7 sid m"
      using assms by (simp add: persistAndGate_def runAutomatedTestsStandIn_def Let_def)
    have f: "fst (publishFailed ?st7 sid m) = ?st7\<lparr> outbound := outbound ?st7 @ [AnalyticsTrack ''publish_failed'' sid] \<rparr>"
      "snd (publishFailed ?st7 sid m) = Inl (''Publishing failed: '' @ m)"
      by (simp_all add: publishFailed_def track_def)
    show "set (storedStatus (fst (persistAndGate deps env st sid pid spec v p rid)) sid) = {PENDING_APPROVAL} \<and>
      approvalCalls (outbound (fst (persistAndGate deps env st sid pid spec v p rid))) = approvalCalls (outbound st) @ [sid] \<and>
      (snd (persistAndGate deps env st sid pid spec v p rid) = Inr r \<longrightarrow> PublishResult.status r = PENDING_APPROVAL)"
      unfolding e f using s by simp
  next
    case (Inr u)
    then have e: "persistAndGate deps env st sid pid spec v p rid = announce deps ?st7 ?service True"
      using assms by (simp add: persistAndGate_def runAutomatedTestsStandIn_def Let_def)
    have g: "approvalCalls (outbound (fst (announce deps ?st7 ?service True))) = approvalCalls (outbound st) @ [sid]"
      by (simp only: announce_frame st7)
    have h: "snd (announce deps ?st7 ?service True) = Inr r \<longrightarrow> PublishResult.status r = PENDING_APPROVAL"
      using announce_status[of deps ?st7 ?service True r] by (simp add: newService_def)
    have k: "set (storedStatus (fst (announce deps ?st7 ?service True)) sid) = {PENDING_APPROVAL}"
      by (simp only: storedStatus_announce st7)
    show "set (storedStatus (fst (persistAndGate deps env st sid pid spec v p rid)) sid) = {PENDING_APPROVAL} \<and>
      approvalCalls (outbound (fst (persistAndGate deps env st sid pid spec v p rid))) = approvalCalls (outbound st) @ [sid] \<and>
      (snd (persistAndGate deps env st sid pid spec v p rid) = Inr r \<longrightarrow> PublishResult.status r = PENDING_APPROVAL)"
      unfolding e using g h k by blast
  qed
qed

lemma publishService_passes:
  assumes "passesPhases deps env spec rid"
  shows "publishService deps env st sid pid spec
           = persistAndGate deps env (st\<lparr> outbound := outbound st @ [RegistryRegisterService spec] \<rparr>)
               sid pid spec (validate deps spec) (validateService env spec) rid"
  using assms by (auto simp: publishService_def passesPhases_def Let_def split: option.splits)

text \<open>
  C5. Approval is required exactly when the compliance level is confidential or
  restricted or the support level is enterprise (in the service and in the workflow
  alike). A specification without a trigger that passes validation, policy check and
  registration is stored as active and no approval workflow is created; it is answered
  as active when its pricing is present and the governance notification returns. With a
  trigger, one approval workflow is created for the service, the stored status stays
  pending_approval, and any answer of the call carries pending_approval.
\<close>

theorem approval_is_required_exactly_for_the_triggers:
  "requiresManualApproval spec
     = (map_option level (ServiceSpec.compliance spec) = Some ''confidential''
        \<or> map_option level (ServiceSpec.compliance spec) = Some ''restricted''
        \<or> map_option supportLevel (ServiceSpec.sla spec) = Some ''enterprise'')
   \<and> requiresApproval spec = requiresManualApproval spec
   \<and> (passesPhases deps env spec rid \<and> \<not> requiresManualApproval spec \<longrightarrow>
        set (storedStatus (fst (publishService deps env st sid pid spec)) sid) = {ACTIVE}
        \<and> approvalCalls (outbound (fst (publishService deps env st sid pid spec)))
            = approvalCalls (outbound st)
        \<and> (ServiceSpec.pricing spec \<noteq> None \<and> (\<forall>s. notifyServicePublished deps s = Inr ())
             \<longrightarrow> snd (publishService deps env st sid pid spec)
                  = Inr \<lparr> serviceId = sid, status = ACTIVE,
                          message = ''Service published successfully and is now active'' \<rparr>))
   \<and> (passesPhases deps env spec rid \<and> requiresManualApproval spec \<longrightarrow>
        set (storedStatus (fst (publishService deps env st sid pid spec)) sid)
          = {PENDING_APPROVAL}
        \<and> approvalCalls (outbound (fst (publishService deps env st sid pid spec)))
            = approvalCalls (outbound st) @ [sid]
        \<and> (\<forall>r. snd (publishService deps env st sid pid spec) = Inr r
                 \<longrightarrow> PublishResult.status r = PENDING_APPROVAL))"
proof (intro conjI impI allI)
  show "requiresManualApproval spec
     = (map_option level (ServiceSpec.compliance spec) = Some ''confidential''
        \<or> map_option level (ServiceSpec.compliance spec) = Some ''restricted''
        \<or> map_option supportLevel (ServiceSpec.sla spec) = Some ''enterprise'')"
    by (simp add: requiresManualApproval_def)
  show "requiresApproval spec = requiresManualApproval spec"
    by (simp add: requiresManualApproval_def requiresApproval_def)
next
  assume a: "passesPhases deps env spec rid \<and> \<not> requiresManualApproval spec"
  let ?st4 = "st\<lparr> outbound := outbound st @ [RegistryRegisterService spec] \<rparr>"
  note e = publishService_passes[of deps env spec rid st sid pid]
  note w = persistAndGate_without_trigger[of spec deps env ?st4 sid pid "validate deps spec" "validateService env spec" rid]
  show "set (storedStatus (fst (publishService deps env st sid pid spec)) sid) = {ACTIVE}"
    using a e w(1) by simp
  show "approvalCalls (outbound (fst (publishService deps env st sid pid spec))) = approvalCalls (outbound st)"
    using a e w(2) by simp
  show "snd (publishService deps env st sid pid spec)
                  = Inr \<lparr> serviceId = sid, status = ACTIVE,
                          message = ''Service published successfully and is now active'' \<rparr>"
    if "ServiceSpec.pricing spec \<noteq> None \<and> (\<forall>s. notifyServicePublished deps s = Inr ())"
    using a e w(3) that by simp
next
  assume a: "passesPhases deps env spec rid \<and> requiresManualApproval spec"
  let ?st4 = "st\<lparr> outbound := outbound st @ [RegistryRegisterService spec] \<rparr>"
  note e = publishService_passes[of deps env spec rid st sid pid]
  note w = persistAndGate_with_trigger[of spec deps env ?st4 sid pid "validate deps spec" "validateService env spec" rid]
  show "set (storedStatus (fst (publishService deps env st sid pid spec)) sid) = {PENDING_APPROVAL}"
    using a e w(1) by simp
  show "approvalCalls (outbound (fst (publishService deps env st sid pid spec)))
            = approvalCalls (outbound st) @ [sid]"
    using a e w(2) by simp
  show "PublishResult.status r = PENDING_APPROVAL"
    if "snd (publishService deps env st sid pid spec) = Inr r" for r
    using a e w(3)[of r] that by simp
qed

lemma validateService_samples:
  "compliant (validateService sampleEnv sampleSpec)"
  "compliant (validateService sampleEnv confidentialSpec)"
  "compliant (validateService sampleEnv namelessSpec)"
  by (simp_all add: validateService_def validateDataResidencyPolicy_def validateCompliancePolicy_def
        validateSecurityPolicy_def validatePricingPolicy_def sampleEnv_def sampleSpec_def
        confidentialSpec_def namelessSpec_def startsWith_def)

lemma passesPhases_samples:
  "passesPhases sampleDeps sampleEnv sampleSpec ''registry-id-12345''"
  "passesPhases sampleDeps sampleEnv confidentialSpec ''registry-id-12345''"
  using validateService_samples
  by (simp_all add: passesPhases_def sampleDeps_def sampleSpec_def confidentialSpec_def)

text \<open>The happy-path specification and a confidential one.\<close>

theorem approval_is_required_exactly_for_the_triggers_witness:
  "passesPhases sampleDeps sampleEnv sampleSpec ''registry-id-12345''
   \<and> \<not> requiresManualApproval sampleSpec
   \<and> set (storedStatus (fst (publishService sampleDeps sampleEnv emptyState ''svc-1'' ''prov-1'' sampleSpec)) ''svc-1'')
       = {ACTIVE}
   \<and> approvalCalls (outbound (fst (publishService sampleDeps sampleEnv emptyState ''svc-1'' ''prov-1'' sampleSpec)))
       = []
   \<and> snd (publishService sampleDeps sampleEnv emptyState ''svc-1'' ''prov-1'' sampleSpec)
       = Inr \<lparr> serviceId = ''svc-1'', status = ACTIVE,
               message = ''Service published successfully and is now active'' \<rparr>
   \<and> passesPhases sampleDeps sampleEnv confidentialSpec ''registry-id-12345''
   \<and> requiresManualApproval confidentialSpec
   \<and> set (storedStatus (fst (publishService sampleDeps sampleEnv emptyState ''svc-2'' ''prov-1'' confidentialSpec)) ''svc-2'')
       = {PENDING_APPROVAL}
   \<and> approvalCalls (outbound (fst (publishService sampleDeps sampleEnv emptyState ''svc-2'' ''prov-1'' confidentialSpec)))
       = [''svc-2'']"
proof -
  note plain =
    approval_is_required_exactly_for_the_triggers[where spec = sampleSpec and deps = sampleDeps
      and env = sampleEnv and rid = "''registry-id-12345''" and st = emptyState
      and sid = "''svc-1''" and pid = "''prov-1''"]
  note gated =
    approval_is_required_exactly_for_the_triggers[where spec = confidentialSpec and deps = sampleDeps
      and env = sampleEnv and rid = "''registry-id-12345''" and st = emptyState
      and sid = "''svc-2''" and pid = "''prov-1''"]
  have n: "\<not> requiresManualApproval sampleSpec"
    by (simp add: requiresManualApproval_def sampleSpec_def)
  have y: "requiresManualApproval confidentialSpec"
    by (simp add: requiresManualApproval_def confidentialSpec_def sampleSpec_def)
  have pr: "ServiceSpec.pricing sampleSpec \<noteq> None" by (simp add: sampleSpec_def)
  have no: "\<forall>s. notifyServicePublished sampleDeps s = Inr ()" by (simp add: sampleDeps_def)
  have o: "approvalCalls (outbound emptyState) = []" by (simp add: emptyState_def)
  show ?thesis
    using plain gated n y pr no o passesPhases_samples by simp
qed

text \<open>A specification without a name.\<close>

theorem structural_failure_never_reaches_registry_witness:
  "\<not> isValid (validate sampleDeps namelessSpec)
   \<and> snd (publishService sampleDeps sampleEnv emptyState ''svc-1'' ''prov-1'' namelessSpec)
       = Inr \<lparr> serviceId = ''svc-1'', status = FAILED_VALIDATION,
               message = ''Validation failed: name is required'' \<rparr>
   \<and> outbound (fst (publishService sampleDeps sampleEnv emptyState ''svc-1'' ''prov-1'' namelessSpec))
       = [AnalyticsTrack ''validation_failed'' ''svc-1'']
   \<and> registryCalls (outbound (fst (publishService sampleDeps sampleEnv emptyState ''svc-1'' ''prov-1'' namelessSpec)))
       = []
   \<and> PublishingState.services (fst (publishService sampleDeps sampleEnv emptyState ''svc-1'' ''prov-1'' namelessSpec))
       = []"
proof -
  have h: "\<not> isValid (validate sampleDeps namelessSpec)"
    by (simp add: sampleDeps_def namelessSpec_def)
  have m: "errors (validate sampleDeps namelessSpec)
             = [\<lparr> field = ''name'', message = ''name is required'' \<rparr>]"
    by (simp add: sampleDeps_def namelessSpec_def)
  show ?thesis
    using structural_failure_never_reaches_registry[OF h, of sampleEnv emptyState "''svc-1''" "''prov-1''"] h
    by (simp add: m emptyState_def)
qed

text \<open>A specification whose data residency names a restricted country.\<close>

theorem rejected_submission_leaves_no_record_witness:
  "rejectedBeforeRegistration sampleDeps sampleEnv embargoedSpec
   \<and> snd (publishService sampleDeps sampleEnv emptyState ''svc-1'' ''prov-1'' embargoedSpec)
       = Inr \<lparr> serviceId = ''svc-1'', status = SUSPENDED,
               message = ''Policy violations: Service cannot have data residency in restricted countries'' \<rparr>
   \<and> PublishingState.services (fst (publishService sampleDeps sampleEnv emptyState ''svc-1'' ''prov-1'' embargoedSpec))
       = []
   \<and> snd (getService (fst (publishService sampleDeps sampleEnv emptyState ''svc-1'' ''prov-1'' embargoedSpec)) ''svc-1'')
       = None"
proof -
  have r: "rejectedBeforeRegistration sampleDeps sampleEnv embargoedSpec"
    by (simp add: rejectedBeforeRegistration_def validateService_def validateDataResidencyPolicy_def
          embargoedSpec_def sampleSpec_def)
  have f: "\<forall>r \<in> set (PublishingState.services emptyState). ServiceRow.id r \<noteq> ''svc-1''"
    "cache emptyState (cacheKey ''svc-1'') = None"
    by (simp_all add: emptyState_def)
  have v: "snd (publishService sampleDeps sampleEnv emptyState ''svc-1'' ''prov-1'' embargoedSpec)
       = Inr \<lparr> serviceId = ''svc-1'', status = SUSPENDED,
               message = ''Policy violations: Service cannot have data residency in restricted countries'' \<rparr>"
    by (simp add: publishService_def sampleDeps_def embargoedSpec_def sampleSpec_def sampleEnv_def
          validateService_def validateDataResidencyPolicy_def validateCompliancePolicy_def
          validateSecurityPolicy_def validatePricingPolicy_def startsWith_def)
  show ?thesis
    using rejected_submission_leaves_no_record[OF r f, of "''prov-1''"] r v
    by (simp add: emptyState_def)
qed

text \<open>
  C3, where the code departs from it. The same specification submitted twice through
  \<^verbatim>\<open>publishService\<close> of the publishing service: the second call is not refused, it reaches
  the registry again and stores a second active record with the same name and version.
  (\<^verbatim>\<open>create\<close> of the repository does refuse it, see \<open>create_refuses_second_submission\<close>.)
\<close>

theorem duplicate_submission_is_registered_again:
  "snd (publishService sampleDeps sampleEnv
          (fst (publishService sampleDeps sampleEnv emptyState ''svc-1'' ''prov-1'' sampleSpec))
          ''svc-2'' ''prov-1'' sampleSpec)
     = Inr \<lparr> serviceId = ''svc-2'', status = ACTIVE,
             message = ''Service published successfully and is now active'' \<rparr>
   \<and> registryCalls (outbound (fst (publishService sampleDeps sampleEnv
          (fst (publishService sampleDeps sampleEnv emptyState ''svc-1'' ''prov-1'' sampleSpec))
          ''svc-2'' ''prov-1'' sampleSpec)))
     = [sampleSpec, sampleSpec]
   \<and> map (\<lambda>r. (ServiceRow.id r, ServiceRow.name r, ServiceRow.version r, ServiceRow.status r))
         (PublishingState.services (fst (publishService sampleDeps sampleEnv
            (fst (publishService sampleDeps sampleEnv emptyState ''svc-1'' ''prov-1'' sampleSpec))
            ''svc-2'' ''prov-1'' sampleSpec)))
     = [(''svc-1'', Some ''gpt-x'', Some ''1.0.0'', ACTIVE),
        (''svc-2'', Some ''gpt-x'', Some ''1.0.0'', ACTIVE)]"
  by (simp add: publishService_def persistAndGate_def announce_def Let_def
        runAutomatedTestsStandIn_def saveService_def updateServiceStatusRow_def cacheSet_def
        track_def emptyState_def newService_def rowOfService_def sampleDeps_def sampleSpec_def
        sampleEnv_def validateService_def validateDataResidencyPolicy_def
        validateCompliancePolicy_def validateSecurityPolicy_def validatePricingPolicy_def
        startsWith_def requiresManualApproval_def)

section \<open>Properties of the repository and the controller\<close>

lemma set_insertRow [simp]: "set (insertRow le x xs) = insert x (set xs)"
  by (induction xs) auto

lemma set_foldr_insertRow [simp]: "set (foldr (insertRow le) xs []) = set xs"
  by (induction xs) auto

lemma set_orderBy [simp]: "set (orderBy params rows) = set rows"
  by (simp add: orderBy_def Let_def)

lemma length_insertRow [simp]: "length (insertRow le x xs) = Suc (length xs)"
  by (induction xs) auto

lemma length_filter_conj_le:
  "length (filter (\<lambda>s. P s \<and> Q s) xs) \<le> length (filter P xs)"
  by (induction xs) auto

lemma joinUsers_status:
  "e \<in> set (joinUsers db rows) \<Longrightarrow> \<exists>s \<in> set rows. ServiceEntity.status e = ServiceRecord.status s
      \<and> ServiceEntity.id e = ServiceRecord.id s"
  by (auto simp: joinUsers_def mapServiceRow_def split: option.splits)

lemma whereClause_status:
  "whereClause eng params s \<Longrightarrow>
     ServiceRecord.status s = (case ServiceSearchParams.status params of None \<Rightarrow> ACTIVE | Some st \<Rightarrow> st)"
  by (auto simp: whereClause_def conditions_def split: option.splits)

lemma search_hits:
  assumes "e \<in> set (SearchResult.services (search eng db params))"
  shows "\<exists>s \<in> set (serviceTable db). whereClause eng params s
           \<and> ServiceEntity.status e = ServiceRecord.status s \<and> ServiceEntity.id e = ServiceRecord.id s"
proof -
  from assms have "e \<in> set (joinUsers db (orderBy params
                          (filter (\<lambda>s. userTable db (ServiceRecord.provider_id s) \<noteq> None)
                             (filter (whereClause eng params) (serviceTable db)))))"
    by (auto simp: search_def Let_def dest: in_set_takeD in_set_dropD)
  from joinUsers_status[OF this] show ?thesis by auto
qed

text \<open>
  C9. A search without a status filter returns only services whose status is active, and
  its total is the number of active rows that satisfy the other conditions; whatever the
  parameters, a returned service that is not active has the status that was asked for.
\<close>

theorem search_defaults_to_active:
  "(ServiceSearchParams.status params = None \<longrightarrow>
      (\<forall>e \<in> set (SearchResult.services (search eng db params)). ServiceEntity.status e = ACTIVE)
      \<and> total (search eng db params)
          = length (filter (\<lambda>s. ServiceRecord.status s = ACTIVE \<and> whereClause eng params s)
                      (serviceTable db))
      \<and> total (search eng db params)
          \<le> length (filter (\<lambda>s. ServiceRecord.status s = ACTIVE) (serviceTable db)))
   \<and> (\<forall>e \<in> set (SearchResult.services (search eng db params)).
         ServiceEntity.status e \<noteq> ACTIVE
         \<longrightarrow> ServiceSearchParams.status params = Some (ServiceEntity.status e))"
proof (intro conjI impI ballI)
  assume n: "ServiceSearchParams.status params = None"
  have w: "whereClause eng params s \<Longrightarrow> ServiceRecord.status s = ACTIVE" for s
    using whereClause_status[of eng params s] n by simp
  show "ServiceEntity.status e = ACTIVE" if "e \<in> set (SearchResult.services (search eng db params))" for e
    using search_hits[OF that] w by auto
  have f: "filter (whereClause eng params) (serviceTable db)
            = filter (\<lambda>s. ServiceRecord.status s = ACTIVE \<and> whereClause eng params s) (serviceTable db)"
    using w by (intro filter_cong) auto
  show "total (search eng db params)
          = length (filter (\<lambda>s. ServiceRecord.status s = ACTIVE \<and> whereClause eng params s)
                      (serviceTable db))"
    using f by (simp add: search_def Let_def)
  have "length (filter (\<lambda>s. ServiceRecord.status s = ACTIVE \<and> whereClause eng params s) (serviceTable db))
          \<le> length (filter (\<lambda>s. ServiceRecord.status s = ACTIVE) (serviceTable db))"
    by (rule length_filter_conj_le)
  then show "total (search eng db params)
          \<le> length (filter (\<lambda>s. ServiceRecord.status s = ACTIVE) (serviceTable db))"
    using f by (simp add: search_def Let_def)
next
  fix e assume e: "e \<in> set (SearchResult.services (search eng db params))"
    and na: "ServiceEntity.status e \<noteq> ACTIVE"
  from search_hits[OF e] obtain s where "whereClause eng params s"
    "ServiceEntity.status e = ServiceRecord.status s" by auto
  with whereClause_status[of eng params s] na
  show "ServiceSearchParams.status params = Some (ServiceEntity.status e)"
    by (auto split: option.splits)
qed

lemma fold_present:
  "fold u (present x g) d = (case x of None \<Rightarrow> d | Some v \<Rightarrow> fold u (g v) d)"
  by (simp add: present_def split: option.splits)

lemma project_fold:
  assumes "\<And>a r. p (assign now a r) = u a (p r)"
  shows "p (fold (assign now) as r) = fold u as (p r)"
  using assms by (induction as arbitrary: r) simp_all

lemma assign_keeps:
  "ServiceRecord.id (assign now a r) = ServiceRecord.id r"
  "ServiceRecord.registry_id (assign now a r) = ServiceRecord.registry_id r"
  "ServiceRecord.name (assign now a r) = ServiceRecord.name r"
  "ServiceRecord.version (assign now a r) = ServiceRecord.version r"
  "ServiceRecord.provider_id (assign now a r) = ServiceRecord.provider_id r"
  "ServiceRecord.category (assign now a r) = ServiceRecord.category r"
  "ServiceRecord.created_at (assign now a r) = ServiceRecord.created_at r"
  by (cases a; simp)+

lemma fold_assign_keeps:
  "ServiceRecord.id (fold (assign now) as r) = ServiceRecord.id r"
  "ServiceRecord.registry_id (fold (assign now) as r) = ServiceRecord.registry_id r"
  "ServiceRecord.name (fold (assign now) as r) = ServiceRecord.name r"
  "ServiceRecord.version (fold (assign now) as r) = ServiceRecord.version r"
  "ServiceRecord.provider_id (fold (assign now) as r) = ServiceRecord.provider_id r"
  "ServiceRecord.category (fold (assign now) as r) = ServiceRecord.category r"
  "ServiceRecord.created_at (fold (assign now) as r) = ServiceRecord.created_at r"
  by (induction as arbitrary: r; simp add: assign_keeps)+

lemma fold_const [simp]: "fold (\<lambda>a d. d) as d = d"
  by (induction as) simp_all

lemma fold_assign_description:
  "ServiceRecord.description (fold (assign now) (assignments input) r)
     = (case UpdateInput.description input of None \<Rightarrow> ServiceRecord.description r | Some v \<Rightarrow> v)"
proof -
  have "ServiceRecord.description (fold (assign now) as r)
          = fold (\<lambda>a d. case a of SetDescription v \<Rightarrow> v | _ \<Rightarrow> d) as (ServiceRecord.description r)" for as
    by (rule project_fold) (simp split: Assignment.splits)
  then show ?thesis
    by (simp add: assignments_def fold_present split: option.splits)
qed

lemma fold_assign_tags:
  "ServiceRecord.tags (fold (assign now) (assignments input) r)
     = (case UpdateInput.tags input of None \<Rightarrow> ServiceRecord.tags r | Some v \<Rightarrow> v)"
proof -
  have "ServiceRecord.tags (fold (assign now) as r)
          = fold (\<lambda>a d. case a of SetTags v \<Rightarrow> v | _ \<Rightarrow> d) as (ServiceRecord.tags r)" for as
    by (rule project_fold) (simp split: Assignment.splits)
  then show ?thesis
    by (simp add: assignments_def fold_present split: option.splits)
qed

lemma fold_assign_capabilities:
  "ServiceRecord.capabilities (fold (assign now) (assignments input) r)
     = (case UpdateInput.capabilities input of None \<Rightarrow> ServiceRecord.capabilities r | Some v \<Rightarrow> v)"
proof -
  have "ServiceRecord.capabilities (fold (assign now) as r)
          = fold (\<lambda>a d. case a of SetCapabilities v \<Rightarrow> v | _ \<Rightarrow> d) as (ServiceRecord.capabilities r)" for as
    by (rule project_fold) (simp split: Assignment.splits)
  then show ?thesis
    by (simp add: assignments_def fold_present split: option.splits)
qed

lemma fold_assign_endpoint:
  "ServiceRecord.endpoint (fold (assign now) (assignments input) r)
     = (case UpdateInput.endpoint input of None \<Rightarrow> ServiceRecord.endpoint r | Some v \<Rightarrow> v)"
proof -
  have "ServiceRecord.endpoint (fold (assign now) as r)
          = fold (\<lambda>a d. case a of SetEndpoint v \<Rightarrow> v | _ \<Rightarrow> d) as (ServiceRecord.endpoint r)" for as
    by (rule project_fold) (simp split: Assignment.splits)
  then show ?thesis
    by (simp add: assignments_def fold_present split: option.splits)
qed

lemma fold_assign_pricing:
  "ServiceRecord.pricing (fold (assign now) (assignments input) r)
     = (case UpdateInput.pricing input of None \<Rightarrow> ServiceRecord.pricing r | Some v \<Rightarrow> v)"
proof -
  have "ServiceRecord.pricing (fold (assign now) as r)
          = fold (\<lambda>a d. case a of SetPricing v \<Rightarrow> v | _ \<Rightarrow> d) as (ServiceRecord.pricing r)" for as
    by (rule project_fold) (simp split: Assignment.splits)
  then show ?thesis
    by (simp add: assignments_def fold_present split: option.splits)
qed

lemma fold_assign_sla:
  "ServiceRecord.sla (fold (assign now) (assignments input) r)
     = (case UpdateInput.sla input of None \<Rightarrow> ServiceRecord.sla r | Some v \<Rightarrow> v)"
proof -
  have "ServiceRecord.sla (fold (assign now) as r)
          = fold (\<lambda>a d. case a of SetSla v \<Rightarrow> v | _ \<Rightarrow> d) as (ServiceRecord.sla r)" for as
    by (rule project_fold) (simp split: Assignment.splits)
  then show ?thesis
    by (simp add: assignments_def fold_present split: option.splits)
qed

lemma fold_assign_compliance:
  "ServiceRecord.compliance (fold (assign now) (assignments input) r)
     = (case UpdateInput.compliance input of None \<Rightarrow> ServiceRecord.compliance r | Some v \<Rightarrow> v)"
proof -
  have "ServiceRecord.compliance (fold (assign now) as r)
          = fold (\<lambda>a d. case a of SetCompliance v \<Rightarrow> v | _ \<Rightarrow> d) as (ServiceRecord.compliance r)" for as
    by (rule project_fold) (simp split: Assignment.splits)
  then show ?thesis
    by (simp add: assignments_def fold_present split: option.splits)
qed

lemma fold_assign_status:
  "ServiceRecord.status (fold (assign now) (assignments input) r)
     = (case UpdateInput.status input of None \<Rightarrow> ServiceRecord.status r | Some v \<Rightarrow> v)"
proof -
  have "ServiceRecord.status (fold (assign now) as r)
          = fold (\<lambda>a d. case a of SetStatus v \<Rightarrow> v | _ \<Rightarrow> d) as (ServiceRecord.status r)" for as
    by (rule project_fold) (simp split: Assignment.splits)
  then show ?thesis
    by (simp add: assignments_def fold_present split: option.splits)
qed

lemma fold_assign_suspension_reason:
  "ServiceRecord.suspension_reason (fold (assign now) (assignments input) r)
     = (case UpdateInput.suspensionReason input of
          None \<Rightarrow> ServiceRecord.suspension_reason r | Some v \<Rightarrow> Some v)"
proof -
  have "ServiceRecord.suspension_reason (fold (assign now) as r)
          = fold (\<lambda>a d. case a of SetSuspensionReason v \<Rightarrow> Some v | _ \<Rightarrow> d) as
              (ServiceRecord.suspension_reason r)" for as
    by (rule project_fold) (simp split: Assignment.splits)
  then show ?thesis
    by (simp add: assignments_def fold_present split: option.splits)
qed

lemma fold_assign_published_at:
  "ServiceRecord.published_at (fold (assign now) (assignments input) r)
     = (if UpdateInput.status input = Some ACTIVE then Some now else ServiceRecord.published_at r)"
proof -
  have "ServiceRecord.published_at (fold (assign now) as r)
          = fold (\<lambda>a d. case a of SetPublishedAtNow \<Rightarrow> Some now | _ \<Rightarrow> d) as
              (ServiceRecord.published_at r)" for as
    by (rule project_fold) (simp split: Assignment.splits)
  then show ?thesis
    by (simp add: assignments_def fold_present split: option.splits)
qed

lemma fold_assign_deprecated_at:
  "ServiceRecord.deprecated_at (fold (assign now) (assignments input) r)
     = (if UpdateInput.status input = Some DEPRECATED then Some now else ServiceRecord.deprecated_at r)"
proof -
  have "ServiceRecord.deprecated_at (fold (assign now) as r)
          = fold (\<lambda>a d. case a of SetDeprecatedAtNow \<Rightarrow> Some now | _ \<Rightarrow> d) as
              (ServiceRecord.deprecated_at r)" for as
    by (rule project_fold) (simp split: Assignment.splits)
  then show ?thesis
    by (simp add: assignments_def fold_present split: option.splits)
qed

lemmas fold_assign_columns =
  fold_assign_description fold_assign_tags fold_assign_capabilities fold_assign_endpoint
  fold_assign_pricing fold_assign_sla fold_assign_compliance fold_assign_status
  fold_assign_suspension_reason fold_assign_published_at fold_assign_deprecated_at
  fold_assign_keeps

lemma update_outcomes:
  "update eng db sid input
     = (if assignments input = [] then (db, Inl (DatabaseError ''No fields to update''))
        else if \<forall>r \<in> set (serviceTable db). ServiceRecord.id r \<noteq> sid
        then (db, Inl (NotFoundError ''Service'' sid))
        else (db\<lparr> serviceTable :=
                    map (\<lambda>r. if ServiceRecord.id r = sid
                             then (fold (assign (sqlNow eng)) (assignments input) r)
                                    \<lparr> ServiceRecord.updated_at := sqlNow eng \<rparr>
                             else r)
                        (serviceTable db) \<rparr>,
              Inr (findById
                     (db\<lparr> serviceTable :=
                           map (\<lambda>r. if ServiceRecord.id r = sid
                                    then (fold (assign (sqlNow eng)) (assignments input) r)
                                           \<lparr> ServiceRecord.updated_at := sqlNow eng \<rparr>
                                    else r)
                               (serviceTable db) \<rparr>) sid)))"
  by (simp add: update_def Let_def filter_empty_conv)

text \<open>
  C10 (as amended). An \<^verbatim>\<open>update\<close> that succeeds changes, in the rows with the given
  identifier, exactly the columns whose field is present in the input, sets
  \<^verbatim>\<open>updated_at\<close> to the time of the statement, sets \<^verbatim>\<open>published_at\<close> exactly when the
  requested status is active and \<^verbatim>\<open>deprecated_at\<close> exactly when it is deprecated, and
  leaves every other column, every other row and the users alone. An \<^verbatim>\<open>update\<close> that fails
  (no field present, or no row with the identifier) changes nothing.
\<close>

theorem update_touches_only_the_requested_columns:
  "(update eng db sid input = (db', Inr res) \<longrightarrow>
      assignments input \<noteq> []
      \<and> userTable db' = userTable db
      \<and> length (serviceTable db') = length (serviceTable db)
      \<and> (\<forall>i < length (serviceTable db).
            (ServiceRecord.id (serviceTable db ! i) \<noteq> sid
               \<longrightarrow> serviceTable db' ! i = serviceTable db ! i)
            \<and> (ServiceRecord.id (serviceTable db ! i) = sid \<longrightarrow>
                 ServiceRecord.description (serviceTable db' ! i)
                   = (case UpdateInput.description input of
                        None \<Rightarrow> ServiceRecord.description (serviceTable db ! i) | Some v \<Rightarrow> v)
                 \<and> ServiceRecord.tags (serviceTable db' ! i)
                   = (case UpdateInput.tags input of
                        None \<Rightarrow> ServiceRecord.tags (serviceTable db ! i) | Some v \<Rightarrow> v)
                 \<and> ServiceRecord.capabilities (serviceTable db' ! i)
                   = (case UpdateInput.capabilities input of
                        None \<Rightarrow> ServiceRecord.capabilities (serviceTable db ! i) | Some v \<Rightarrow> v)
                 \<and> ServiceRecord.endpoint (serviceTable db' ! i)
                   = (case UpdateInput.endpoint input of
                        None \<Rightarrow> ServiceRecord.endpoint (serviceTable db ! i) | Some v \<Rightarrow> v)
                 \<and> ServiceRecord.pricing (serviceTable db' ! i)
                   = (case UpdateInput.pricing input of
                        None \<Rightarrow> ServiceRecord.pricing (serviceTable db ! i) | Some v \<Rightarrow> v)
                 \<and> ServiceRecord.sla (serviceTable db' ! i)
                   = (case UpdateInput.sla input of
                        None \<Rightarrow> ServiceRecord.sla (serviceTable db ! i) | Some v \<Rightarrow> v)
                 \<and> ServiceRecord.compliance (serviceTable db' ! i)
                   = (case UpdateInput.compliance input of
                        None \<Rightarrow> ServiceRecord.compliance (serviceTable db ! i) | Some v \<Rightarrow> v)
                 \<and> ServiceRecord.status (serviceTable db' ! i)
                   = (case UpdateInput.status input of
                        None \<Rightarrow> ServiceRecord.status (serviceTable db ! i) | Some v \<Rightarrow> v)
                 \<and> ServiceRecord.suspension_reason (serviceTable db' ! i)
                   = (case UpdateInput.suspensionReason input of
                        None \<Rightarrow> ServiceRecord.suspension_reason (serviceTable db ! i)
                      | Some v \<Rightarrow> Some v)
                 \<and> ServiceRecord.published_at (serviceTable db' ! i)
                   = (if UpdateInput.status input = Some ACTIVE then Some (sqlNow eng)
                      else ServiceRecord.published_at (serviceTable db ! i))
                 \<and> ServiceRecord.deprecated_at (serviceTable db' ! i)
                   = (if UpdateInput.status input = Some DEPRECATED then Some (sqlNow eng)
                      else ServiceRecord.deprecated_at (serviceTable db ! i))
                 \<and> ServiceRecord.updated_at (serviceTable db' ! i) = sqlNow eng
                 \<and> ServiceRecord.id (serviceTable db' ! i) = sid
                 \<and> ServiceRecord.registry_id (serviceTable db' ! i)
                   = ServiceRecord.registry_id (serviceTable db ! i)
                 \<and> ServiceRecord.name (serviceTable db' ! i)
                   = ServiceRecord.name (serviceTable db ! i)
                 \<and> ServiceRecord.version (serviceTable db' ! i)
                   = ServiceRecord.version (serviceTable db ! i)
                 \<and> ServiceRecord.provider_id (serviceTable db' ! i)
                   = ServiceRecord.provider_id (serviceTable db ! i)
                 \<and> ServiceRecord.category (serviceTable db' ! i)
                   = ServiceRecord.category (serviceTable db ! i)
                 \<and> ServiceRecord.created_at (serviceTable db' ! i)
                   = ServiceRecord.created_at (serviceTable db ! i))))
   \<and> (update eng db sid input = (db', Inl err) \<longrightarrow>
        db' = db
        \<and> (err = DatabaseError ''No fields to update'' \<and> assignments input = []
            \<or> err = NotFoundError ''Service'' sid
               \<and> (\<forall>r \<in> set (serviceTable db). ServiceRecord.id r \<noteq> sid)))"
proof (intro conjI impI)
  assume u: "update eng db sid input = (db', Inr res)"
  then have ne: "assignments input \<noteq> []"
    and d: "db' = db\<lparr> serviceTable :=
                    map (\<lambda>r. if ServiceRecord.id r = sid
                             then (fold (assign (sqlNow eng)) (assignments input) r)
                                    \<lparr> ServiceRecord.updated_at := sqlNow eng \<rparr>
                             else r)
                        (serviceTable db) \<rparr>"
    by (auto simp: update_outcomes split: if_splits)
  show "assignments input \<noteq> []" by (rule ne)
  show "userTable db' = userTable db" by (simp add: d)
  show "length (serviceTable db') = length (serviceTable db)" by (simp add: d)
  show "\<forall>i < length (serviceTable db).
            (ServiceRecord.id (serviceTable db ! i) \<noteq> sid
               \<longrightarrow> serviceTable db' ! i = serviceTable db ! i)
            \<and> (ServiceRecord.id (serviceTable db ! i) = sid \<longrightarrow>
                 ServiceRecord.description (serviceTable db' ! i)
                   = (case UpdateInput.description input of
                        None \<Rightarrow> ServiceRecord.description (serviceTable db ! i) | Some v \<Rightarrow> v)
                 \<and> ServiceRecord.tags (serviceTable db' ! i)
                   = (case UpdateInput.tags input of
                        None \<Rightarrow> ServiceRecord.tags (serviceTable db ! i) | Some v \<Rightarrow> v)
                 \<and> ServiceRecord.capabilities (serviceTable db' ! i)
                   = (case UpdateInput.capabilities input of
                        None \<Rightarrow> ServiceRecord.capabilities (serviceTable db ! i) | Some v \<Rightarrow> v)
                 \<and> ServiceRecord.endpoint (serviceTable db' ! i)
                   = (case UpdateInput.endpoint input of
                        None \<Rightarrow> ServiceRecord.endpoint (serviceTable db ! i) | Some v \<Rightarrow> v)
                 \<and> ServiceRecord.pricing (serviceTable db' ! i)
                   = (case UpdateInput.pricing input of
                        None \<Rightarrow> ServiceRecord.pricing (serviceTable db ! i) | Some v \<Rightarrow> v)
                 \<and> ServiceRecord.sla (serviceTable db' ! i)
                   = (case UpdateInput.sla input of
                        None \<Rightarrow> ServiceRecord.sla (serviceTable db ! i) | Some v \<Rightarrow> v)
                 \<and> ServiceRecord.compliance (serviceTable db' ! i)
                   = (case UpdateInput.compliance input of
                        None \<Rightarrow> ServiceRecord.compliance (serviceTable db ! i) | Some v \<Rightarrow> v)
                 \<and> ServiceRecord.status (serviceTable db' ! i)
                   = (case UpdateInput.status input of
                        None \<Rightarrow> ServiceRecord.status (serviceTable db ! i) | Some v \<Rightarrow> v)
                 \<and> ServiceRecord.suspension_reason (serviceTable db' ! i)
                   = (case UpdateInput.suspensionReason input of
                        None \<Rightarrow> ServiceRecord.suspension_reason (serviceTable db ! i)
                      | Some v \<Rightarrow> Some v)
                 \<and> ServiceRecord.published_at (serviceTable db' ! i)
                   = (if UpdateInput.status input = Some ACTIVE then Some (sqlNow eng)
                      else ServiceRecord.published_at (serviceTable db ! i))
                 \<and> ServiceRecord.deprecated_at (serviceTable db' ! i)
                   = (if UpdateInput.status input = Some DEPRECATED then Some (sqlNow eng)
                      else ServiceRecord.deprecated_at (serviceTable db ! i))
                 \<and> ServiceRecord.updated_at (serviceTable db' ! i) = sqlNow eng
                 \<and> ServiceRecord.id (serviceTable db' ! i) = sid
                 \<and> ServiceRecord.registry_id (serviceTable db' ! i)
                   = ServiceRecord.registry_id (serviceTable db ! i)
                 \<and> ServiceRecord.name (serviceTable db' ! i)
                   = ServiceRecord.name (serviceTable db ! i)
                 \<and> ServiceRecord.version (serviceTable db' ! i)
                   = ServiceRecord.version (serviceTable db ! i)
                 \<and> ServiceRecord.provider_id (serviceTable db' ! i)
                   = ServiceRecord.provider_id (serviceTable db ! i)
                 \<and> ServiceRecord.category (serviceTable db' ! i)
                   = ServiceRecord.category (serviceTable db ! i)
                 \<and> ServiceRecord.created_at (serviceTable db' ! i)
                   = ServiceRecord.created_at (serviceTable db ! i))"
    by (simp add: d fold_assign_columns)
next
  assume u: "update eng db sid input = (db', Inl err)"
  then show "db' = db" by (auto simp: update_outcomes split: if_splits)
  from u show "err = DatabaseError ''No fields to update'' \<and> assignments input = []
            \<or> err = NotFoundError ''Service'' sid
               \<and> (\<forall>r \<in> set (serviceTable db). ServiceRecord.id r \<noteq> sid)"
    by (auto simp: update_outcomes split: if_splits)
qed

lemma sample_rows [simp]:
  "ServiceRecord.id (sampleRecord sid st) = sid"
  "ServiceRecord.status (sampleRecord sid st) = st"
  "ServiceRecord.provider_id (sampleRecord sid st) = ''prov-1''"
  "ServiceRecord.created_at (sampleRecord sid st) = 10"
  "ServiceRecord.updated_at (sampleRecord sid st) = 10"
  "ServiceRecord.published_at (sampleRecord sid st) = None"
  "ServiceRecord.deprecated_at (sampleRecord sid st) = None"
  by (simp_all add: sampleRecord_def)

lemma search_samples:
  "map ServiceEntity.id (SearchResult.services (search sampleEngine sampleDb noFilter)) = [''s1'']"
  "total (search sampleEngine sampleDb noFilter) = 1"
  "map ServiceEntity.id
     (SearchResult.services
        (search sampleEngine sampleDb (noFilter\<lparr> ServiceSearchParams.status := Some RETIRED \<rparr>)))
     = [''s2'']"
  by (simp_all add: search_def whereClause_def conditions_def truthy_def noFilter_def sampleDb_def
        joinUsers_def orderBy_def mapServiceRow_def Let_def)

text \<open>A table with an active, a retired and a pending service.\<close>

theorem search_defaults_to_active_witness:
  "ServiceSearchParams.status noFilter = None
   \<and> map ServiceEntity.id (SearchResult.services (search sampleEngine sampleDb noFilter)) = [''s1'']
   \<and> list_all (\<lambda>e. ServiceEntity.status e = ACTIVE)
         (SearchResult.services (search sampleEngine sampleDb noFilter))
   \<and> total (search sampleEngine sampleDb noFilter) = 1
   \<and> length (filter (\<lambda>s. ServiceRecord.status s = ACTIVE) (serviceTable sampleDb)) = 1
   \<and> map ServiceEntity.id
        (SearchResult.services
           (search sampleEngine sampleDb (noFilter\<lparr> ServiceSearchParams.status := Some RETIRED \<rparr>)))
       = [''s2'']"
proof -
  have n: "ServiceSearchParams.status noFilter = None" by (simp add: noFilter_def)
  have a: "list_all (\<lambda>e. ServiceEntity.status e = ACTIVE)
         (SearchResult.services (search sampleEngine sampleDb noFilter))"
    using search_defaults_to_active[of noFilter sampleEngine sampleDb] n
    by (simp add: list_all_iff)
  have t: "total (search sampleEngine sampleDb noFilter)
             \<le> length (filter (\<lambda>s. ServiceRecord.status s = ACTIVE) (serviceTable sampleDb))"
    using search_defaults_to_active[of noFilter sampleEngine sampleDb] n by simp
  have l: "length (filter (\<lambda>s. ServiceRecord.status s = ACTIVE) (serviceTable sampleDb)) = 1"
    by (simp add: sampleDb_def)
  show ?thesis using n a t l search_samples by simp
qed

text \<open>
  C10 as stated fails: an \<^verbatim>\<open>update\<close> whose input has no field is refused and does not
  refresh \<^verbatim>\<open>updated_at\<close>.
\<close>

theorem update_without_fields_counterexample:
  "update sampleEngine sampleDb ''s1'' noChange
     = (sampleDb, Inl (DatabaseError ''No fields to update''))
   \<and> map ServiceRecord.updated_at
         (serviceTable (fst (update sampleEngine sampleDb ''s1'' noChange))) = [10, 10, 10]
   \<and> sqlNow sampleEngine = 200"
  by (simp add: update_def assignments_def present_def noChange_def sampleDb_def sampleEngine_def)

lemma assignments_statusOnly:
  "assignments (statusOnly st)
     = SetStatus st # (if st = ACTIVE then [SetPublishedAtNow] else [])
         @ (if st = DEPRECATED then [SetDeprecatedAtNow] else [])"
  by (simp add: assignments_def present_def statusOnly_def)

lemma findById_s2:
  "findById sampleDb ''s2''
     = Some (mapServiceRow (sampleRecord ''s2'' RETIRED) (Some ''Ada Lovelace'') (Some False))"
  by (simp add: findById_def joinUsers_def queryOne_def sampleDb_def)

text \<open>Deprecating the active service of the sample table, and an unknown identifier.\<close>

theorem update_touches_only_the_requested_columns_witness:
  "(case update sampleEngine sampleDb ''s1'' (statusOnly DEPRECATED) of
      (db', Inr res) \<Rightarrow>
        map (\<lambda>r. (ServiceRecord.id r, ServiceRecord.status r, ServiceRecord.updated_at r,
                  ServiceRecord.published_at r, ServiceRecord.deprecated_at r))
            (serviceTable db')
          = [(''s1'', DEPRECATED, 200, None, Some 200), (''s2'', RETIRED, 10, None, None),
             (''s3'', PENDING_APPROVAL, 10, None, None)]
    | (db', Inl err) \<Rightarrow> False)
   \<and> update sampleEngine sampleDb ''s9'' (statusOnly DEPRECATED)
       = (sampleDb, Inl (NotFoundError ''Service'' ''s9''))"
proof -
  obtain db' out where u: "update sampleEngine sampleDb ''s1'' (statusOnly DEPRECATED) = (db', out)"
    by (cases "update sampleEngine sampleDb ''s1'' (statusOnly DEPRECATED)")
  have ok: "\<exists>res. out = Inr res"
    using u by (auto simp: update_def assignments_statusOnly sampleDb_def Let_def)
  then obtain res where r: "out = Inr res" by blast
  note t = update_touches_only_the_requested_columns[of sampleEngine sampleDb "''s1''"
             "statusOnly DEPRECATED" db' res, THEN conjunct1, rule_format, OF u[unfolded r]]
  have len: "length (serviceTable db') = 3" using t by (simp add: sampleDb_def)
  then obtain x y z where xyz: "serviceTable db' = [x, y, z]"
    by (cases "serviceTable db'"; simp; rename_tac a as; case_tac as; simp; rename_tac b bs;
        case_tac bs; simp)
  have i0: "ServiceRecord.id x = ''s1'' \<and> ServiceRecord.status x = DEPRECATED
            \<and> ServiceRecord.updated_at x = 200 \<and> ServiceRecord.published_at x = None
            \<and> ServiceRecord.deprecated_at x = Some 200"
    using t[THEN conjunct2, THEN conjunct2, THEN conjunct2, rule_format, of 0]
    by (simp add: sampleDb_def xyz statusOnly_def sampleEngine_def)
  have i1: "y = sampleRecord ''s2'' RETIRED"
    using t[THEN conjunct2, THEN conjunct2, THEN conjunct2, rule_format, of 1]
    by (simp add: sampleDb_def xyz)
  have i2: "z = sampleRecord ''s3'' PENDING_APPROVAL"
    using t[THEN conjunct2, THEN conjunct2, THEN conjunct2, rule_format, of 2]
    by (simp add: sampleDb_def xyz)
  have nf: "update sampleEngine sampleDb ''s9'' (statusOnly DEPRECATED)
       = (sampleDb, Inl (NotFoundError ''Service'' ''s9''))"
    by (simp add: update_def assignments_statusOnly sampleDb_def)
  show ?thesis
    using i0 i1 i2 nf by (simp add: u r xyz)
qed

text \<open>
  C2, where the code departs from it. The handler of \<^verbatim>\<open>PUT /services/:id/publish\<close> at a
  retired service: the record becomes active although the table of transitions lets
  nothing leave \<^verbatim>\<open>retired\<close>; the handler of \<^verbatim>\<open>PUT /services/:id\<close> refuses the same change
  and leaves the table as it was.
\<close>

theorem publish_handler_reactivates_retired_service:
  "\<not> isValidStatusTransition RETIRED ACTIVE
   \<and> map (\<lambda>r. (ServiceRecord.id r, ServiceRecord.status r)) (serviceTable sampleDb)
       = [(''s1'', ACTIVE), (''s2'', RETIRED), (''s3'', PENDING_APPROVAL)]
   \<and> map (\<lambda>r. (ServiceRecord.id r, ServiceRecord.status r))
         (serviceTable (fst (publishServiceHandler sampleEngine sampleDb sampleProvider ''s2'')))
       = [(''s1'', ACTIVE), (''s2'', ACTIVE), (''s3'', PENDING_APPROVAL)]
   \<and> \<not> isl (snd (publishServiceHandler sampleEngine sampleDb sampleProvider ''s2''))
   \<and> updateServiceHandler sampleEngine sampleDb sampleProvider ''s2'' (Inr (statusOnly ACTIVE))
       = (sampleDb, Inl (ValidationError ''Invalid status transition from retired to active''))"
proof -
  have p: "publishServiceHandler sampleEngine sampleDb sampleProvider ''s2''
             = update sampleEngine sampleDb ''s2'' (statusOnly ACTIVE)"
    by (simp add: publishServiceHandler_def findById_s2)
  have u: "serviceTable (fst (update sampleEngine sampleDb ''s2'' (statusOnly ACTIVE)))
             = map (\<lambda>r. if ServiceRecord.id r = ''s2''
                        then (fold (assign 200) [SetStatus ACTIVE, SetPublishedAtNow] r)
                               \<lparr> ServiceRecord.updated_at := 200 \<rparr>
                        else r) (serviceTable sampleDb)"
    "\<not> isl (snd (update sampleEngine sampleDb ''s2'' (statusOnly ACTIVE)))"
    by (simp_all add: update_def assignments_statusOnly sampleDb_def sampleEngine_def Let_def)
  have h: "updateServiceHandler sampleEngine sampleDb sampleProvider ''s2'' (Inr (statusOnly ACTIVE))
       = (sampleDb, Inl (ValidationError ''Invalid status transition from retired to active''))"
    by (simp add: updateServiceHandler_def findById_s2 mapServiceRow_def sampleProvider_def
          statusOnly_def)
  show ?thesis
    by (simp add: p u h) (simp add: sampleDb_def)
qed

lemma updateServiceHandler_refuses_illegal_transition:
  assumes "findById db sid = Some existing"
    and "UpdateInput.status validated = Some requested"
    and "requested \<noteq> ServiceEntity.status existing"
    and "\<not> isValidStatusTransition (ServiceEntity.status existing) requested"
  shows "fst (updateServiceHandler eng db user sid (Inr validated)) = db"
    and "isl (snd (updateServiceHandler eng db user sid (Inr validated)))"
  using assms by (simp_all add: updateServiceHandler_def)

lemma create_refuses_second_submission:
  assumes "userTable db pid \<noteq> None"
    and "create eng db pid input = (db1, Inr e)"
    and "CreateInput.name input2 = CreateInput.name input"
    and "CreateInput.version input2 = CreateInput.version input"
  shows "create eng2 db1 pid2 input2
           = (db1, Inl (ConflictError (''Service '' @ CreateInput.name input @ '' version ''
                                       @ CreateInput.version input @ '' already exists'')))"
proof -
  from assms(2) have d: "db1 = db\<lparr> serviceTable := serviceTable db @
      [\<lparr> ServiceRecord.id = freshId eng,
                       registry_id = CreateInput.registryId input,
                       name = CreateInput.name input, version = CreateInput.version input,
                       description = CreateInput.description input, provider_id = pid,
                       category = CreateInput.category input, tags = CreateInput.tags input,
                       capabilities = CreateInput.capabilities input,
                       endpoint = CreateInput.endpoint input,
                       pricing = CreateInput.pricing input, sla = CreateInput.sla input,
                       compliance = CreateInput.compliance input, status = PENDING_APPROVAL,
                       created_at = sqlNow eng, updated_at = sqlNow eng, published_at = None,
                       deprecated_at = None, suspension_reason = None \<rparr>] \<rparr>"
    by (auto simp: create_def Let_def split: option.splits)
  have "findByNameAndVersion db1 (CreateInput.name input) (CreateInput.version input) \<noteq> None"
    using assms(1)
    by (auto simp: d findByNameAndVersion_def joinUsers_def queryOne_def split: list.splits)
  then show ?thesis
    using assms(3,4) by (auto simp: create_def)
qed

end
